theory Spec2Isabelle
  imports Complex_Main
begin

section \<open>Decimal numbers\<close>

text \<open>
  The bot computes with Python's \<^verbatim>\<open>decimal.Decimal\<close>. A finite decimal is the triple the
  library stores: a sign, a coefficient and an exponent, standing for
  \<open>\<plusminus> coefficient * 10 ^ exponent\<close>. The triple matters, not only the number: \<^verbatim>\<open>1E+3\<close> and
  \<^verbatim>\<open>1000.00\<close> print differently and have different numbers of digits.
\<close>

datatype dec = Dec (dsign: bool) (dint: nat) (dexp: int)

text \<open>
  A decimal is finite, an infinity (with its sign) or a NaN (with its sign, whether it is
  signalling, and its diagnostic digits as a number, \<open>0\<close> for none).
\<close>

datatype decimal = Finite dec | Infinity bool | NaN bool bool nat

datatype rounding = ROUND_DOWN | ROUND_HALF_EVEN

text \<open>
  The exceptions met. \<open>Overflow\<close>, \<open>InvalidOperation\<close> and \<open>DivisionByZero\<close> are the signals
  of the decimal library that the default context traps; \<open>OverflowError\<close>,
  \<open>ZeroDivisionError\<close>, \<open>ValueError\<close>, \<open>TypeError\<close> and \<open>OSError\<close> are Python's own;
  \<open>GatewayError\<close> stands for whatever a call of the client library raises.
\<close>

datatype exn =
    ValueError string
  | InvalidOperation
  | DivisionByZero
  | Overflow
  | OverflowError
  | ZeroDivisionError
  | TypeError
  | OSError
  | GatewayError string

text \<open>
  The limits of the exponent in the default context, which no script changes:
  \<^verbatim>\<open>Emax = 999999\<close>, \<^verbatim>\<open>Emin = -999999\<close>, and \<^verbatim>\<open>clamp = 0\<close>. \<^verbatim>\<open>Etiny\<close> is the exponent of the
  smallest subnormal number, \<^verbatim>\<open>Etop\<close> the largest exponent of a number of full precision.
\<close>

definition Emax :: int where
  "Emax = 999999"

definition Emin :: int where
  "Emin = - 999999"

definition Etiny :: "nat \<Rightarrow> int" where
  "Etiny prec = Emin - int prec + 1"

definition Etop :: "nat \<Rightarrow> int" where
  "Etop prec = Emax - int prec + 1"

text \<open>\<^verbatim>\<open>len(self._int)\<close>: the number of digits of the coefficient (\<open>0\<close> has one digit).\<close>

fun ndigits :: "nat \<Rightarrow> nat" where
  "ndigits n = (if n < 10 then 1 else Suc (ndigits (n div 10)))"

declare ndigits.simps [simp del]

definition adjusted :: "dec \<Rightarrow> int" where
  "adjusted d = dexp d + int (ndigits (dint d)) - 1"

definition signed :: "dec \<Rightarrow> int" where
  "signed d = (if dsign d then - int (dint d) else int (dint d))"

text \<open>The exact value, for stating what a sum of quantities is.\<close>

definition dec_val :: "dec \<Rightarrow> rat" where
  "dec_val d = (if 0 \<le> dexp d then of_int (signed d) * 10 ^ nat (dexp d)
                else of_int (signed d) / 10 ^ nat (- dexp d))"

text \<open>
  Dropping the \<open>k\<close> low digits of the coefficient \<open>c\<close>: does the kept part move away from
  zero? \<^verbatim>\<open>ROUND_DOWN\<close> truncates; \<^verbatim>\<open>ROUND_HALF_EVEN\<close> (the context's default) goes to the
  nearest, a tie to the even neighbour.
\<close>

definition round_up :: "rounding \<Rightarrow> nat \<Rightarrow> nat \<Rightarrow> bool" where
  "round_up rnd c k =
     (case rnd of
        ROUND_DOWN \<Rightarrow> False
      | ROUND_HALF_EVEN \<Rightarrow>
          0 < k \<and> (5 * 10 ^ (k - 1) < c mod 10 ^ k
                   \<or> (c mod 10 ^ k = 5 * 10 ^ (k - 1) \<and> odd (c div 10 ^ k))))"

text \<open>\<^verbatim>\<open>Decimal._rescale(exp, rounding)\<close>: the same number at exponent \<open>e\<close>, rounded if digits go.\<close>

definition rescale :: "rounding \<Rightarrow> dec \<Rightarrow> int \<Rightarrow> dec" where
  "rescale rnd d e =
     (if dint d = 0 then Dec (dsign d) 0 e
      else if e \<le> dexp d then Dec (dsign d) (dint d * 10 ^ nat (dexp d - e)) e
      else let k = nat (e - dexp d)
           in Dec (dsign d) (dint d div 10 ^ k + (if round_up rnd (dint d) k then 1 else 0)) e)"

text \<open>
  \<^verbatim>\<open>Decimal._fix(context)\<close>, which ends every arithmetic operation. A zero keeps its exponent,
  brought into \<open>[Etiny, Emax]\<close>. Another number is rounded (half-even) to at most \<open>prec\<close>
  significant digits, and to no exponent below \<^verbatim>\<open>Etiny\<close> (so a tiny result may round to
  zero); a coefficient that rounds up to \<open>prec + 1\<close> digits (\<open>99..9 \<rightarrow> 100..0\<close>) loses its last
  zero. A result above \<^verbatim>\<open>Emax\<close> raises \<^verbatim>\<open>Overflow\<close>.
\<close>

definition fix_ctx :: "nat \<Rightarrow> dec \<Rightarrow> exn + dec" where
  "fix_ctx prec d =
     (if dint d = 0 then Inr (Dec (dsign d) 0 (min (max (dexp d) (Etiny prec)) Emax))
      else if Etop prec < int (ndigits (dint d)) + dexp d - int prec then Inl Overflow
      else let exp_min = max (int (ndigits (dint d)) + dexp d - int prec) (Etiny prec)
           in if dexp d < exp_min
              then let k = nat (exp_min - dexp d);
                       coeff = dint d div 10 ^ k
                                + (if round_up ROUND_HALF_EVEN (dint d) k then 1 else 0)
                   in if prec < ndigits coeff
                      then (if Etop prec < exp_min + 1 then Inl Overflow
                            else Inr (Dec (dsign d) (coeff div 10) (exp_min + 1)))
                      else Inr (Dec (dsign d) coeff exp_min)
              else Inr d)"

text \<open>\<^verbatim>\<open>a + b\<close> of finite numbers: the exact sum at the smaller exponent, then \<^verbatim>\<open>_fix\<close>.\<close>

definition dec_add :: "nat \<Rightarrow> dec \<Rightarrow> dec \<Rightarrow> exn + dec" where
  "dec_add prec a b =
     (let e = min (dexp a) (dexp b);
          s = signed a * 10 ^ nat (dexp a - e) + signed b * 10 ^ nat (dexp b - e);
          sg = (if s = 0 then dint a = 0 \<and> dint b = 0 \<and> dsign a \<and> dsign b else s < 0)
      in fix_ctx prec (Dec sg (nat \<bar>s\<bar>) e))"

definition dec_neg :: "dec \<Rightarrow> dec" where
  "dec_neg d = Dec (\<not> dsign d) (dint d) (dexp d)"

definition dec_mul :: "nat \<Rightarrow> dec \<Rightarrow> dec \<Rightarrow> exn + dec" where
  "dec_mul prec a b =
     fix_ctx prec (Dec (dsign a \<noteq> dsign b) (dint a * dint b) (dexp a + dexp b))"

text \<open>
  An exact quotient is brought as close to the ideal exponent as its trailing zeros allow.
\<close>

function strip_zeros :: "nat \<Rightarrow> int \<Rightarrow> int \<Rightarrow> nat \<times> int" where
  "strip_zeros coeff e ideal =
     (if e < ideal \<and> coeff mod 10 = 0 then strip_zeros (coeff div 10) (e + 1) ideal
      else (coeff, e))"
  by pat_completeness auto
termination
  by (relation "measure (\<lambda>(coeff, e, ideal). nat (ideal - e))") auto

declare strip_zeros.simps [simp del]

text \<open>
  \<^verbatim>\<open>a / b\<close> of finite numbers: \<open>prec + 1\<close> or \<open>prec + 2\<close> digits of the quotient, a sticky last
  digit when the division is inexact, then \<^verbatim>\<open>_fix\<close>. \<open>0 / 0\<close> raises \<^verbatim>\<open>InvalidOperation\<close>,
  another division by zero \<^verbatim>\<open>DivisionByZero\<close>.
\<close>

definition dec_div :: "nat \<Rightarrow> dec \<Rightarrow> dec \<Rightarrow> exn + dec" where
  "dec_div prec a b =
     (let sg = (dsign a \<noteq> dsign b) in
      if dint b = 0 then (if dint a = 0 then Inl InvalidOperation else Inl DivisionByZero)
      else if dint a = 0 then fix_ctx prec (Dec sg 0 (dexp a - dexp b))
      else let shift = int (ndigits (dint b)) - int (ndigits (dint a)) + int prec + 1;
               e = dexp a - dexp b - shift;
               num = (if 0 \<le> shift then dint a * 10 ^ nat shift else dint a);
               den = (if 0 \<le> shift then dint b else dint b * 10 ^ nat (- shift));
               q = num div den;
               r = num mod den
           in if r \<noteq> 0
              then fix_ctx prec (Dec sg (if q mod 5 = 0 then q + 1 else q) e)
              else (case strip_zeros q e (dexp a - dexp b) of
                      (q', e') \<Rightarrow> fix_ctx prec (Dec sg q' e')))"

text \<open>
  \<^verbatim>\<open>d.quantize(ex, rounding)\<close> of finite numbers: \<open>d\<close> at the exponent of \<open>ex\<close>. The library
  refuses an exponent outside \<open>[Etiny, Emax]\<close>, a number above \<^verbatim>\<open>Emax\<close> and a result of more
  than \<open>prec\<close> digits: it raises \<^verbatim>\<open>InvalidOperation\<close>.
\<close>

definition dec_quantize :: "nat \<Rightarrow> dec \<Rightarrow> dec \<Rightarrow> rounding \<Rightarrow> exn + dec" where
  "dec_quantize prec d ex rnd =
     (if dexp ex < Etiny prec \<or> Emax < dexp ex then Inl InvalidOperation
      else if dint d = 0 then fix_ctx prec (Dec (dsign d) 0 (dexp ex))
      else if Emax < adjusted d then Inl InvalidOperation
      else if int prec < adjusted d - dexp ex + 1 then Inl InvalidOperation
      else let ans = rescale rnd d (dexp ex)
           in if Emax < adjusted ans then Inl InvalidOperation
              else if prec < ndigits (dint ans) then Inl InvalidOperation
              else fix_ctx prec ans)"

text \<open>Comparison of finite decimals is by value.\<close>

definition dec_le :: "dec \<Rightarrow> dec \<Rightarrow> bool" where
  "dec_le a b =
     (let e = min (dexp a) (dexp b)
      in signed a * 10 ^ nat (dexp a - e) \<le> signed b * 10 ^ nat (dexp b - e))"

text \<open>\<^verbatim>\<open>Decimal(n)\<close> for a Python int.\<close>

definition Decimal_of_int :: "int \<Rightarrow> dec" where
  "Decimal_of_int n = Dec (n < 0) (nat \<bar>n\<bar>) 0"

subsection \<open>Infinities and NaNs\<close>

text \<open>
  \<^verbatim>\<open>Decimal._check_nans\<close>, the first step of every operation of two decimals: a signalling
  NaN raises \<^verbatim>\<open>InvalidOperation\<close>; otherwise a NaN operand (the left one first) is the
  result, made quiet, its diagnostic digits cut to the last \<open>prec\<close>. \<open>None\<close>: no NaN.
\<close>

definition check_nans :: "nat \<Rightarrow> decimal \<Rightarrow> decimal \<Rightarrow> (exn + decimal) option" where
  "check_nans prec a b =
     (case a of
        NaN sg sig diag \<Rightarrow>
          if sig then Some (Inl InvalidOperation)
          else (case b of
                  NaN sg' sig' diag' \<Rightarrow>
                    if sig' then Some (Inl InvalidOperation)
                    else Some (Inr (NaN sg False (diag mod 10 ^ prec)))
                | Finite y \<Rightarrow> Some (Inr (NaN sg False (diag mod 10 ^ prec)))
                | Infinity sb \<Rightarrow> Some (Inr (NaN sg False (diag mod 10 ^ prec))))
      | Finite x \<Rightarrow>
          (case b of
             NaN sg sig diag \<Rightarrow>
               if sig then Some (Inl InvalidOperation)
               else Some (Inr (NaN sg False (diag mod 10 ^ prec)))
           | Finite y \<Rightarrow> None
           | Infinity sb \<Rightarrow> None)
      | Infinity sa \<Rightarrow>
          (case b of
             NaN sg sig diag \<Rightarrow>
               if sig then Some (Inl InvalidOperation)
               else Some (Inr (NaN sg False (diag mod 10 ^ prec)))
           | Finite y \<Rightarrow> None
           | Infinity sb \<Rightarrow> None))"

definition is_nan :: "decimal \<Rightarrow> bool" where
  "is_nan d = (case d of NaN sg sig diag \<Rightarrow> True | Finite x \<Rightarrow> False | Infinity s \<Rightarrow> False)"

definition is_zero :: "decimal \<Rightarrow> bool" where
  "is_zero d = (case d of Finite x \<Rightarrow> dint x = 0 | Infinity s \<Rightarrow> False | NaN sg sig diag \<Rightarrow> False)"

definition sign_of :: "decimal \<Rightarrow> bool" where
  "sign_of d = (case d of Finite x \<Rightarrow> dsign x | Infinity s \<Rightarrow> s | NaN sg sig diag \<Rightarrow> sg)"

definition copy_negate :: "decimal \<Rightarrow> decimal" where
  "copy_negate d =
     (case d of
        Finite x \<Rightarrow> Finite (dec_neg x)
      | Infinity s \<Rightarrow> Infinity (\<not> s)
      | NaN sg sig diag \<Rightarrow> NaN (\<not> sg) sig diag)"

text \<open>The result of an operation on finite numbers, as a decimal.\<close>

definition finite_result :: "exn + dec \<Rightarrow> exn + decimal" where
  "finite_result r = (case r of Inl e \<Rightarrow> Inl e | Inr d \<Rightarrow> Inr (Finite d))"

text \<open>\<^verbatim>\<open>a + b\<close>: the sum of two infinities of opposite signs raises \<^verbatim>\<open>InvalidOperation\<close>.\<close>

definition decimal_add :: "nat \<Rightarrow> decimal \<Rightarrow> decimal \<Rightarrow> exn + decimal" where
  "decimal_add prec a b =
     (case check_nans prec a b of
        Some r \<Rightarrow> r
      | None \<Rightarrow>
          (case a of
             Infinity sa \<Rightarrow>
               (case b of
                  Infinity sb \<Rightarrow> if sa \<noteq> sb then Inl InvalidOperation else Inr a
                | Finite y \<Rightarrow> Inr a
                | NaN sg sig diag \<Rightarrow> Inr a)
           | Finite x \<Rightarrow>
               (case b of
                  Infinity sb \<Rightarrow> Inr b
                | Finite y \<Rightarrow> finite_result (dec_add prec x y)
                | NaN sg sig diag \<Rightarrow> Inr b)
           | NaN sg sig diag \<Rightarrow> Inr a))"

text \<open>\<^verbatim>\<open>a - b\<close> is \<^verbatim>\<open>a + b.copy_negate()\<close>, after the check for NaNs.\<close>

definition decimal_sub :: "nat \<Rightarrow> decimal \<Rightarrow> decimal \<Rightarrow> exn + decimal" where
  "decimal_sub prec a b =
     (case check_nans prec a b of
        Some r \<Rightarrow> r
      | None \<Rightarrow> decimal_add prec a (copy_negate b))"

text \<open>\<^verbatim>\<open>a * b\<close>: an infinity times zero raises \<^verbatim>\<open>InvalidOperation\<close>.\<close>

definition decimal_mul :: "nat \<Rightarrow> decimal \<Rightarrow> decimal \<Rightarrow> exn + decimal" where
  "decimal_mul prec a b =
     (case check_nans prec a b of
        Some r \<Rightarrow> r
      | None \<Rightarrow>
          (case a of
             Infinity sa \<Rightarrow>
               if is_zero b then Inl InvalidOperation else Inr (Infinity (sa \<noteq> sign_of b))
           | Finite x \<Rightarrow>
               (case b of
                  Infinity sb \<Rightarrow>
                    if dint x = 0 then Inl InvalidOperation else Inr (Infinity (dsign x \<noteq> sb))
                | Finite y \<Rightarrow> finite_result (dec_mul prec x y)
                | NaN sg sig diag \<Rightarrow> Inr b)
           | NaN sg sig diag \<Rightarrow> Inr a))"

text \<open>
  \<^verbatim>\<open>a / b\<close>: an infinity by an infinity raises \<^verbatim>\<open>InvalidOperation\<close>; an infinity by a finite
  number, zero included, is an infinity; a finite number by an infinity is a zero at
  \<^verbatim>\<open>Etiny\<close>.
\<close>

definition decimal_truediv :: "nat \<Rightarrow> decimal \<Rightarrow> decimal \<Rightarrow> exn + decimal" where
  "decimal_truediv prec a b =
     (case check_nans prec a b of
        Some r \<Rightarrow> r
      | None \<Rightarrow>
          (case a of
             Infinity sa \<Rightarrow>
               (case b of
                  Infinity sb \<Rightarrow> Inl InvalidOperation
                | Finite y \<Rightarrow> Inr (Infinity (sa \<noteq> dsign y))
                | NaN sg sig diag \<Rightarrow> Inr a)
           | Finite x \<Rightarrow>
               (case b of
                  Infinity sb \<Rightarrow> Inr (Finite (Dec (dsign x \<noteq> sb) 0 (Etiny prec)))
                | Finite y \<Rightarrow> finite_result (dec_div prec x y)
                | NaN sg sig diag \<Rightarrow> Inr b)
           | NaN sg sig diag \<Rightarrow> Inr a))"

text \<open>
  \<^verbatim>\<open>a.quantize(ex, rounding)\<close>: with one infinity it raises \<^verbatim>\<open>InvalidOperation\<close>, with two it
  returns \<open>a\<close>.
\<close>

definition decimal_quantize :: "nat \<Rightarrow> decimal \<Rightarrow> decimal \<Rightarrow> rounding \<Rightarrow> exn + decimal" where
  "decimal_quantize prec a ex rnd =
     (case check_nans prec a ex of
        Some r \<Rightarrow> r
      | None \<Rightarrow>
          (case a of
             Infinity sa \<Rightarrow>
               (case ex of
                  Infinity sb \<Rightarrow> Inr a
                | Finite y \<Rightarrow> Inl InvalidOperation
                | NaN sg sig diag \<Rightarrow> Inr a)
           | Finite x \<Rightarrow>
               (case ex of
                  Infinity sb \<Rightarrow> Inl InvalidOperation
                | Finite y \<Rightarrow> finite_result (dec_quantize prec x y rnd)
                | NaN sg sig diag \<Rightarrow> Inr ex)
           | NaN sg sig diag \<Rightarrow> Inr a))"

text \<open>
  Ordering, \<^verbatim>\<open>a <= b\<close> and \<^verbatim>\<open>a >= b\<close>. A NaN cannot be ordered: the comparison raises
  \<^verbatim>\<open>InvalidOperation\<close>. An infinity is below or above every finite number.
\<close>

definition inf_rank :: "decimal \<Rightarrow> int" where
  "inf_rank d =
     (case d of
        Infinity s \<Rightarrow> if s then - 1 else 1
      | Finite x \<Rightarrow> 0
      | NaN sg sig diag \<Rightarrow> 0)"

definition decimal_le :: "decimal \<Rightarrow> decimal \<Rightarrow> exn + bool" where
  "decimal_le a b =
     (if is_nan a \<or> is_nan b then Inl InvalidOperation
      else case a of
             Finite x \<Rightarrow>
               (case b of
                  Finite y \<Rightarrow> Inr (dec_le x y)
                | Infinity sb \<Rightarrow> Inr (inf_rank a \<le> inf_rank b)
                | NaN sg sig diag \<Rightarrow> Inr (inf_rank a \<le> inf_rank b))
           | Infinity sa \<Rightarrow> Inr (inf_rank a \<le> inf_rank b)
           | NaN sg sig diag \<Rightarrow> Inr (inf_rank a \<le> inf_rank b))"

definition decimal_ge :: "decimal \<Rightarrow> decimal \<Rightarrow> exn + bool" where
  "decimal_ge a b = decimal_le b a"

subsection \<open>Printing\<close>

definition digit_char :: "nat \<Rightarrow> char" where
  "digit_char n = ''0123456789'' ! (n mod 10)"

fun digits_of :: "nat \<Rightarrow> string" where
  "digits_of n = (if n < 10 then [digit_char n] else digits_of (n div 10) @ [digit_char n])"

declare digits_of.simps [simp del]

text \<open>\<^verbatim>\<open>"%+d" % n\<close>\<close>

definition show_exp :: "int \<Rightarrow> string" where
  "show_exp n = (if n < 0 then ''-'' else ''+'') @ digits_of (nat \<bar>n\<bar>)"

text \<open>
  \<^verbatim>\<open>str(d)\<close> of a finite number: plain notation when the exponent is at most \<open>0\<close> and the
  number is not too small, scientific notation otherwise.
\<close>

definition str_dec :: "dec \<Rightarrow> string" where
  "str_dec d =
     (let ds = digits_of (dint d);
          leftdigits = dexp d + int (length ds);
          dotplace = (if dexp d \<le> 0 \<and> - 6 < leftdigits then leftdigits else 1);
          intpart = (if dotplace \<le> 0 then ''0''
                     else if int (length ds) \<le> dotplace
                          then ds @ replicate (nat (dotplace - int (length ds))) CHR ''0''
                     else take (nat dotplace) ds);
          fracpart = (if dotplace \<le> 0 then ''.'' @ replicate (nat (- dotplace)) CHR ''0'' @ ds
                      else if int (length ds) \<le> dotplace then ''''
                      else ''.'' @ drop (nat dotplace) ds);
          ex = (if leftdigits = dotplace then '''' else ''E'' @ show_exp (leftdigits - dotplace))
      in (if dsign d then ''-'' else '''') @ intpart @ fracpart @ ex)"

text \<open>\<^verbatim>\<open>str(d)\<close> of any decimal.\<close>

definition decimal_str :: "decimal \<Rightarrow> string" where
  "decimal_str d =
     (case d of
        Finite x \<Rightarrow> str_dec x
      | Infinity s \<Rightarrow> (if s then ''-'' else '''') @ ''Infinity''
      | NaN sg sig diag \<Rightarrow>
          (if sg then ''-'' else '''') @ (if sig then ''sNaN'' else ''NaN'')
            @ (if diag = 0 then '''' else digits_of diag))"

section \<open>Floats and \<^verbatim>\<open>time.sleep\<close>\<close>

text \<open>
  A Python float is a binary64 number: a sign, and a magnitude \<open>m * 2 ^ e\<close> with \<open>m < 2 ^ 53\<close>
  and \<open>e \<ge> -1074\<close>. The only floats of the bot are the interval of \<^verbatim>\<open>run_twap\<close>, a quotient
  of two ints, and what \<^verbatim>\<open>time.sleep\<close> makes of it.
\<close>

datatype float = Float (fneg: bool) (fman: nat) (fexp: int)

text \<open>The number of bits of \<open>n\<close>.\<close>

fun bit_length :: "nat \<Rightarrow> nat" where
  "bit_length n = (if n = 0 then 0 else Suc (bit_length (n div 2)))"

declare bit_length.simps [simp del]

text \<open>For \<open>n, d > 0\<close>: the \<open>e\<close> with \<open>2 ^ e \<le> n / d < 2 ^ (e + 1)\<close>.\<close>

definition floor_log2 :: "nat \<Rightarrow> nat \<Rightarrow> int" where
  "floor_log2 n d =
     (let k = int (bit_length n) - int (bit_length d)
      in if d * 2 ^ nat k \<le> n * 2 ^ nat (- k) then k else k - 1)"

text \<open>The integer nearest to \<open>n / d\<close>, a tie to the even one.\<close>

definition half_even_div :: "nat \<Rightarrow> nat \<Rightarrow> nat" where
  "half_even_div n d =
     (let q = n div d; r = n mod d
      in if 2 * r < d \<or> (2 * r = d \<and> even q) then q else q + 1)"

text \<open>
  The binary64 magnitude nearest to \<open>n / d\<close> (\<open>n, d > 0\<close>), as mantissa and exponent: 53 bits,
  fewer below \<open>2 ^ -1022\<close>. The exponent is not bounded above here.
\<close>

definition nearest_double :: "nat \<Rightarrow> nat \<Rightarrow> nat \<times> int" where
  "nearest_double n d =
     (let e = max (floor_log2 n d) (- 1022) - 52
      in (half_even_div (n * 2 ^ nat (- e)) (d * 2 ^ nat e), e))"

text \<open>
  \<^verbatim>\<open>a / b\<close> of two Python ints: the float nearest to the quotient; \<^verbatim>\<open>OverflowError\<close> when that
  is \<open>2 ^ 1024\<close> or more.
\<close>

definition int_truediv :: "int \<Rightarrow> int \<Rightarrow> exn + float" where
  "int_truediv a b =
     (if b = 0 then Inl ZeroDivisionError
      else if a = 0 then Inr (Float (b < 0) 0 0)
      else case nearest_double (nat \<bar>a\<bar>) (nat \<bar>b\<bar>) of
             (m, e) \<Rightarrow>
               if 1024 < int (bit_length m) + e then Inl OverflowError
               else Inr (Float ((a < 0) \<noteq> (b < 0)) m e))"

text \<open>
  What the operating system makes of a sleep of so many nanoseconds (more than none):
  \<open>None\<close> when it sleeps and returns. It is outside the repository and outside Python: a
  sleep that would end after the last instant of its clock is refused with \<^verbatim>\<open>OSError\<close>, and
  when that is depends on the clock.
\<close>

type_synonym platform = "nat \<Rightarrow> exn option"

text \<open>
  \<^verbatim>\<open>time.sleep(secs)\<close> of a float: the seconds are multiplied by \<open>10 ^ 9\<close> (in binary64) and
  rounded away from zero to a whole number of nanoseconds, which must fit 64 bits, or the
  call raises \<^verbatim>\<open>OverflowError\<close>; a negative number of nanoseconds raises \<^verbatim>\<open>ValueError\<close>; a
  sleep of no time returns at once. \<open>None\<close>: the call returns.
\<close>

definition time_sleep :: "platform \<Rightarrow> float \<Rightarrow> exn option" where
  "time_sleep os secs =
     (if fman secs = 0 then None
      else case nearest_double (fman secs * 10 ^ 9 * 2 ^ nat (fexp secs)) (2 ^ nat (- fexp secs)) of
             (m, e) \<Rightarrow>
               (let ns = (m * 2 ^ nat e + 2 ^ nat (- e) - 1) div 2 ^ nat (- e)
                in if fneg secs
                   then (if 2 ^ 63 < ns then Some OverflowError
                         else if 0 < ns then Some (ValueError ''sleep length must be non-negative'')
                         else None)
                   else (if 2 ^ 63 \<le> ns then Some OverflowError
                         else if ns = 0 then None
                         else os ns)))"

text \<open>
  \<^verbatim>\<open>time.sleep(secs)\<close> of an int: the nanoseconds \<open>secs * 10 ^ 9\<close> must fit 64 bits, and not
  be negative.
\<close>

definition time_sleep_int :: "platform \<Rightarrow> int \<Rightarrow> exn option" where
  "time_sleep_int os secs =
     (if secs < - 9223372036 \<or> 9223372036 < secs then Some OverflowError
      else if secs < 0 then Some (ValueError ''sleep length must be non-negative'')
      else if secs = 0 then None
      else os (nat secs * 10 ^ 9))"

section \<open>The exchange gateway\<close>

text \<open>
  The client library is outside the repository. What the bot needs of it is that a call
  either returns a dictionary or raises. A gateway answers a call knowing all the calls
  made before it, so the answer to the same query may change from poll to poll. The list of
  calls made so far is the only state the strategies share; every strategy takes it and
  returns it extended.
\<close>

datatype pyval =
    PStr string
  | PInt int
  | PBool bool
  | PNone
  | PDict "(string \<times> pyval) list"

text \<open>
  A keyword argument: a value, or the float made of a decimal, kept as the decimal it was
  made of.
\<close>

datatype arg = Val pyval | FloatOf decimal

text \<open>
  \<^verbatim>\<open>float(d)\<close> of a decimal, as an argument: a signalling NaN raises \<^verbatim>\<open>ValueError\<close>.
\<close>

definition decimal_float :: "decimal \<Rightarrow> exn + arg" where
  "decimal_float d =
     (case d of
        NaN sg sig diag \<Rightarrow>
          if sig then Inl (ValueError ''cannot convert signaling NaN to float'')
          else Inr (FloatOf d)
      | Finite x \<Rightarrow> Inr (FloatOf d)
      | Infinity s \<Rightarrow> Inr (FloatOf d))"

datatype call =
    futures_create_order "(string \<times> arg) list"
  | futures_get_order "(string \<times> arg) list"
  | futures_cancel_order "(string \<times> arg) list"
  | futures_symbol_ticker "(string \<times> arg) list"

datatype reply = Return "(string \<times> pyval) list" | Raise exn

type_synonym gateway = "call list \<Rightarrow> call \<Rightarrow> reply"

type_synonym client = "gateway option"

text \<open>
  \<^verbatim>\<open>if dry_run or client is None\<close>, as every strategy has it: the gateway to use, if any.
\<close>

definition live :: "bool \<Rightarrow> client \<Rightarrow> gateway option" where
  "live dry_run client = (if dry_run then None else client)"

text \<open>\<^verbatim>\<open>d.get(key)\<close>\<close>

definition dict_get :: "(string \<times> pyval) list \<Rightarrow> string \<Rightarrow> pyval" where
  "dict_get d k = (case map_of d k of Some v \<Rightarrow> v | None \<Rightarrow> PNone)"

section \<open>TWAP: \<^verbatim>\<open>advanced/twap.py\<close>\<close>

text \<open>\<^verbatim>\<open>getcontext().prec = 12\<close>, set when the module is loaded.\<close>

definition twap_prec :: nat where
  "twap_prec = 12"

text \<open>Lines 32-33: the quantity of a chunk, rounded down to 8 places, and the remainder.\<close>

definition twap_slices :: "decimal \<Rightarrow> int \<Rightarrow> exn + decimal \<times> decimal" where
  "twap_slices total_qty chunks =
     (case decimal_truediv twap_prec total_qty (Finite (Decimal_of_int chunks)) of
        Inl e \<Rightarrow> Inl e
      | Inr x \<Rightarrow>
          (case decimal_quantize twap_prec x (Finite (Dec False 1 (- 8))) ROUND_DOWN of
             Inl e \<Rightarrow> Inl e
           | Inr qty_per \<Rightarrow>
               (case decimal_mul twap_prec qty_per (Finite (Decimal_of_int chunks)) of
                  Inl e \<Rightarrow> Inl e
                | Inr product \<Rightarrow>
                    (case decimal_sub twap_prec total_qty product of
                       Inl e \<Rightarrow> Inl e
                     | Inr remainder \<Rightarrow> Inr (qty_per, remainder)))))"

text \<open>Line 34: \<^verbatim>\<open>interval = duration_s / max(1, chunks)\<close>, a float.\<close>

definition twap_interval :: "int \<Rightarrow> int \<Rightarrow> exn + float" where
  "twap_interval duration_s chunks = int_truediv duration_s (max 1 chunks)"

text \<open>Line 41: the remainder goes to the last chunk.\<close>

definition execute_qty :: "decimal \<Rightarrow> decimal \<Rightarrow> int \<Rightarrow> nat \<Rightarrow> exn + decimal" where
  "execute_qty qty_per remainder chunks i =
     decimal_add twap_prec qty_per
       (if int i = chunks - 1 then remainder else Finite (Dec False 0 0))"

definition twap_call :: "string \<Rightarrow> string \<Rightarrow> arg \<Rightarrow> call" where
  "twap_call symbol side quantity =
     futures_create_order
       [(''symbol'', Val (PStr symbol)), (''side'', Val (PStr side)),
        (''type'', Val (PStr ''MARKET'')), (''quantity'', quantity)]"

definition twap_dry_record :: "nat \<Rightarrow> decimal \<Rightarrow> pyval" where
  "twap_dry_record i qty =
     PDict [(''chunk'', PInt (int i + 1)), (''status'', PStr ''DRY_RUN''),
            (''qty'', PStr (decimal_str qty))]"

definition twap_error_record :: "nat \<Rightarrow> pyval" where
  "twap_error_record i = PDict [(''chunk'', PInt (int i + 1)), (''status'', PStr ''ERROR'')]"

text \<open>
  Lines 44-59 of one turn of the loop: the record of the dry run, or the placement. The
  \<^verbatim>\<open>try\<close> covers the conversion of the quantity to a float and the call: whatever they raise
  is logged and an \<^verbatim>\<open>ERROR\<close> record appended.
\<close>

definition twap_place ::
  "client \<Rightarrow> string \<Rightarrow> string \<Rightarrow> bool \<Rightarrow> nat \<Rightarrow> decimal \<Rightarrow> pyval list \<times> call list
     \<Rightarrow> pyval list \<times> call list" where
  "twap_place client symbol side dry_run i qty st =
     (case st of (results, h) \<Rightarrow>
        (case live dry_run client of
           None \<Rightarrow> (results @ [twap_dry_record i qty], h)
         | Some gw \<Rightarrow>
             (case decimal_float qty of
                Inl e \<Rightarrow> (results @ [twap_error_record i], h)
              | Inr quantity \<Rightarrow>
                  (case gw h (twap_call symbol side quantity) of
                     Return res \<Rightarrow> (results @ [PDict res], h @ [twap_call symbol side quantity])
                   | Raise e \<Rightarrow>
                       (results @ [twap_error_record i],
                        h @ [twap_call symbol side quantity])))))"

text \<open>
  One turn of the loop, lines 39-63, on the results and the calls made so far. The quantity
  of the chunk and the sleep after every chunk but the last are outside the \<^verbatim>\<open>try\<close>: what
  they raise ends \<^verbatim>\<open>run_twap\<close>.
\<close>

definition twap_chunk ::
  "platform \<Rightarrow> client \<Rightarrow> string \<Rightarrow> string \<Rightarrow> decimal \<Rightarrow> decimal \<Rightarrow> int \<Rightarrow> float \<Rightarrow> bool
     \<Rightarrow> nat \<Rightarrow> (exn + pyval list) \<times> call list \<Rightarrow> (exn + pyval list) \<times> call list" where
  "twap_chunk os client symbol side qty_per remainder chunks interval dry_run i st =
     (case st of
        (Inl e, h) \<Rightarrow> (Inl e, h)
      | (Inr results, h) \<Rightarrow>
          (case execute_qty qty_per remainder chunks i of
             Inl e \<Rightarrow> (Inl e, h)
           | Inr qty \<Rightarrow>
               (case twap_place client symbol side dry_run i qty (results, h) of
                  (results', h') \<Rightarrow>
                    if int i < chunks - 1
                    then (case time_sleep os interval of
                            Some e \<Rightarrow> (Inl e, h')
                          | None \<Rightarrow> (Inr results', h'))
                    else (Inr results', h'))))"

text \<open>
  \<^verbatim>\<open>run_twap\<close>, on the platform it runs on. An exception of the slicing or of the interval
  leaves before the loop, with no call made.
\<close>

definition run_twap ::
  "platform \<Rightarrow> client \<Rightarrow> string \<Rightarrow> string \<Rightarrow> decimal \<Rightarrow> int \<Rightarrow> int \<Rightarrow> bool \<Rightarrow> call list
     \<Rightarrow> (exn + pyval list) \<times> call list" where
  "run_twap os client symbol side total_qty chunks duration_s dry_run h =
     (case twap_slices total_qty chunks of
        Inl e \<Rightarrow> (Inl e, h)
      | Inr (qty_per, remainder) \<Rightarrow>
          (case twap_interval duration_s chunks of
             Inl e \<Rightarrow> (Inl e, h)
           | Inr interval \<Rightarrow>
               fold (twap_chunk os client symbol side qty_per remainder chunks interval dry_run)
                 [0..<nat chunks] (Inr [], h)))"

section \<open>Reading a decimal: \<^verbatim>\<open>Decimal(str)\<close>\<close>

text \<open>
  A string is a list of characters with codes below 256. \<^verbatim>\<open>Decimal(value)\<close> strips the
  white space at both ends, drops every underscore, and matches what is left, ignoring
  case, against: an optional sign, then a number (digits with an optional point and an
  optional exponent, at least one digit), or \<^verbatim>\<open>Inf\<close>/\<^verbatim>\<open>Infinity\<close>, or \<^verbatim>\<open>NaN\<close>/\<^verbatim>\<open>sNaN\<close> with
  optional diagnostic digits. Anything else raises \<^verbatim>\<open>InvalidOperation\<close>.
\<close>

definition is_space :: "char \<Rightarrow> bool" where
  "is_space c \<longleftrightarrow>
     c \<in> set [CHR 0x09, CHR 0x0A, CHR 0x0B, CHR 0x0C, CHR 0x0D, CHR 0x1C, CHR 0x1D, CHR 0x1E,
              CHR 0x1F, CHR 0x20, CHR 0x85, CHR 0xA0]"

definition strip :: "string \<Rightarrow> string" where
  "strip s = rev (dropWhile is_space (rev (dropWhile is_space s)))"

definition is_digit :: "char \<Rightarrow> bool" where
  "is_digit c \<longleftrightarrow> c \<in> set ''0123456789''"

definition digit_val :: "char \<Rightarrow> nat" where
  "digit_val c = length (takeWhile (\<lambda>d. d \<noteq> c) ''0123456789'')"

definition nat_of_digits :: "string \<Rightarrow> nat" where
  "nat_of_digits ds = foldl (\<lambda>n c. 10 * n + digit_val c) 0 ds"

definition lower :: "char \<Rightarrow> char" where
  "lower c =
     (case map_of (zip ''ABCDEFGHIJKLMNOPQRSTUVWXYZ'' ''abcdefghijklmnopqrstuvwxyz'') c of
        Some l \<Rightarrow> l
      | None \<Rightarrow> c)"

definition upper :: "char \<Rightarrow> char" where
  "upper c =
     (case map_of (zip ''abcdefghijklmnopqrstuvwxyz'' ''ABCDEFGHIJKLMNOPQRSTUVWXYZ'') c of
        Some u \<Rightarrow> u
      | None \<Rightarrow> c)"

text \<open>The exponent after \<^verbatim>\<open>E\<close>: an optional sign and at least one digit, to the end.\<close>

definition parse_exp :: "string \<Rightarrow> int option" where
  "parse_exp s =
     (let neg = (take 1 s = ''-'');
          ds = (if take 1 s = ''-'' \<or> take 1 s = ''+'' then drop 1 s else s)
      in if ds \<noteq> [] \<and> list_all is_digit ds
         then Some (if neg then - int (nat_of_digits ds) else int (nat_of_digits ds))
         else None)"

text \<open>A number: the coefficient and the exponent it denotes.\<close>

definition parse_number :: "string \<Rightarrow> (nat \<times> int) option" where
  "parse_number s =
     (let intpart = takeWhile is_digit s;
          r1 = dropWhile is_digit s;
          fracpart = (if take 1 r1 = ''.'' then takeWhile is_digit (drop 1 r1) else []);
          r2 = (if take 1 r1 = ''.'' then dropWhile is_digit (drop 1 r1) else r1);
          coeff = nat_of_digits (intpart @ fracpart)
      in if intpart = [] \<and> fracpart = [] then None
         else if r2 = [] then Some (coeff, - int (length fracpart))
         else if take 1 r2 = ''e''
              then (case parse_exp (drop 1 r2) of
                      Some e \<Rightarrow> Some (coeff, e - int (length fracpart))
                    | None \<Rightarrow> None)
         else None)"

text \<open>A NaN: is it signalling, and its diagnostic digits as a number.\<close>

definition parse_nan :: "string \<Rightarrow> (bool \<times> nat) option" where
  "parse_nan s =
     (let sig = (take 1 s = ''s'');
          r = (if take 1 s = ''s'' then drop 1 s else s)
      in if take 3 r = ''nan'' \<and> list_all is_digit (drop 3 r)
         then Some (sig, nat_of_digits (drop 3 r))
         else None)"

definition Decimal_of_str :: "string \<Rightarrow> exn + decimal" where
  "Decimal_of_str v =
     (let s = map lower (filter (\<lambda>c. c \<noteq> CHR ''_'') (strip v));
          neg = (take 1 s = ''-'');
          r = (if take 1 s = ''-'' \<or> take 1 s = ''+'' then drop 1 s else s)
      in if r = ''inf'' \<or> r = ''infinity'' then Inr (Infinity neg)
         else case parse_nan r of
                Some (sig, diag) \<Rightarrow> Inr (NaN neg sig diag)
              | None \<Rightarrow>
                  (case parse_number r of
                     Some (c, e) \<Rightarrow> Inr (Finite (Dec neg c e))
                   | None \<Rightarrow> Inl InvalidOperation))"

text \<open>
  \<^verbatim>\<open>Decimal(v)\<close> of a value found in a reply of the gateway: a string is read, an int or a
  bool is taken as it is, \<^verbatim>\<open>None\<close> and a dictionary raise \<^verbatim>\<open>TypeError\<close>.
\<close>

definition Decimal_of_pyval :: "pyval \<Rightarrow> exn + decimal" where
  "Decimal_of_pyval v =
     (case v of
        PStr s \<Rightarrow> Decimal_of_str s
      | PInt n \<Rightarrow> Inr (Finite (Decimal_of_int n))
      | PBool b \<Rightarrow> Inr (Finite (Decimal_of_int (if b then 1 else 0)))
      | PNone \<Rightarrow> Inl TypeError
      | PDict d \<Rightarrow> Inl TypeError)"

section \<open>Validation: \<^verbatim>\<open>validation.py\<close>\<close>

definition validate_symbol :: "string \<Rightarrow> exn + string" where
  "validate_symbol symbol =
     (if length symbol < 6 then Inl (ValueError (''Invalid symbol: '' @ symbol))
      else Inr (map upper symbol))"

definition validate_side :: "string \<Rightarrow> exn + string" where
  "validate_side side =
     (let s = map upper side
      in if s = ''BUY'' \<or> s = ''SELL'' then Inr s
         else Inl (ValueError ''Side must be BUY or SELL''))"

text \<open>
  The \<^verbatim>\<open>try\<close> covers the conversion only; the comparison \<^verbatim>\<open>d <= 0\<close> comes after it, so
  what the comparison raises leaves the validator as it is.
\<close>

definition validate_quantity :: "string \<Rightarrow> exn + decimal" where
  "validate_quantity qty =
     (case Decimal_of_str qty of
        Inl e \<Rightarrow>
          (if e = InvalidOperation then Inl (ValueError ''Quantity must be a decimal number'')
           else Inl e)
      | Inr d \<Rightarrow>
          (case decimal_le d (Finite (Dec False 0 0)) of
             Inl e \<Rightarrow> Inl e
           | Inr le \<Rightarrow> if le then Inl (ValueError ''Quantity must be > 0'') else Inr d))"

definition validate_price :: "string \<Rightarrow> exn + decimal" where
  "validate_price price =
     (case Decimal_of_str price of
        Inl e \<Rightarrow>
          (if e = InvalidOperation then Inl (ValueError ''Price must be a decimal number'')
           else Inl e)
      | Inr d \<Rightarrow>
          (case decimal_le d (Finite (Dec False 0 0)) of
             Inl e \<Rightarrow> Inl e
           | Inr le \<Rightarrow> if le then Inl (ValueError ''Price must be > 0'') else Inr d))"

section \<open>Credentials: \<^verbatim>\<open>create_client\<close>\<close>

text \<open>
  Every script reads \<^verbatim>\<open>BINANCE_API_KEY\<close> and \<^verbatim>\<open>BINANCE_API_SECRET\<close> from the environment
  (\<^verbatim>\<open>os.getenv\<close> gives \<^verbatim>\<open>None\<close> for a missing variable) and has the same \<^verbatim>\<open>create_client\<close>:
  no client when either is missing or empty. \<open>Client\<close> stands for the library's
  constructor.
\<close>

definition create_client ::
  "(string \<Rightarrow> string \<Rightarrow> gateway) \<Rightarrow> string option \<Rightarrow> string option \<Rightarrow> client" where
  "create_client Client API_KEY API_SECRET =
     (case API_KEY of
        None \<Rightarrow> None
      | Some key \<Rightarrow>
          (case API_SECRET of
             None \<Rightarrow> None
           | Some secret \<Rightarrow> if key = [] \<or> secret = [] then None else Some (Client key secret)))"

section \<open>Market and limit orders: \<^verbatim>\<open>market_orders.py\<close>, \<^verbatim>\<open>limit_orders.py\<close>\<close>

text \<open>
  An exception of the conversion of the quantity or of the call is logged and raised again.
\<close>

definition market_call :: "string \<Rightarrow> string \<Rightarrow> arg \<Rightarrow> call" where
  "market_call symbol side quantity =
     futures_create_order
       [(''symbol'', Val (PStr symbol)), (''side'', Val (PStr side)),
        (''type'', Val (PStr ''MARKET'')), (''quantity'', quantity)]"

definition place_market_order ::
  "client \<Rightarrow> string \<Rightarrow> string \<Rightarrow> decimal \<Rightarrow> bool \<Rightarrow> call list \<Rightarrow> (exn + pyval) \<times> call list" where
  "place_market_order client symbol side qty dry_run h =
     (case live dry_run client of
        None \<Rightarrow>
          (Inr (PDict [(''status'', PStr ''DRY_RUN''), (''symbol'', PStr symbol),
                       (''side'', PStr side), (''qty'', PStr (decimal_str qty))]), h)
      | Some gw \<Rightarrow>
          (case decimal_float qty of
             Inl e \<Rightarrow> (Inl e, h)
           | Inr quantity \<Rightarrow>
               (case gw h (market_call symbol side quantity) of
                  Return response \<Rightarrow> (Inr (PDict response), h @ [market_call symbol side quantity])
                | Raise e \<Rightarrow> (Inl e, h @ [market_call symbol side quantity]))))"

definition limit_call :: "string \<Rightarrow> string \<Rightarrow> string \<Rightarrow> arg \<Rightarrow> decimal \<Rightarrow> call" where
  "limit_call symbol side time_in_force quantity price =
     futures_create_order
       [(''symbol'', Val (PStr symbol)), (''side'', Val (PStr side)),
        (''type'', Val (PStr ''LIMIT'')), (''timeInForce'', Val (PStr time_in_force)),
        (''quantity'', quantity), (''price'', Val (PStr (decimal_str price)))]"

definition place_limit_order ::
  "client \<Rightarrow> string \<Rightarrow> string \<Rightarrow> decimal \<Rightarrow> decimal \<Rightarrow> string \<Rightarrow> bool \<Rightarrow> call list
     \<Rightarrow> (exn + pyval) \<times> call list" where
  "place_limit_order client symbol side qty price time_in_force dry_run h =
     (case live dry_run client of
        None \<Rightarrow>
          (Inr (PDict [(''status'', PStr ''DRY_RUN''), (''symbol'', PStr symbol),
                       (''side'', PStr side), (''qty'', PStr (decimal_str qty)),
                       (''price'', PStr (decimal_str price))]), h)
      | Some gw \<Rightarrow>
          (case decimal_float qty of
             Inl e \<Rightarrow> (Inl e, h)
           | Inr quantity \<Rightarrow>
               (case gw h (limit_call symbol side time_in_force quantity price) of
                  Return response \<Rightarrow>
                    (Inr (PDict response),
                     h @ [limit_call symbol side time_in_force quantity price])
                | Raise e \<Rightarrow>
                    (Inl e, h @ [limit_call symbol side time_in_force quantity price]))))"

section \<open>Bracket orders: \<^verbatim>\<open>advanced/oco.py\<close>\<close>

definition stop_market_call :: "string \<Rightarrow> string \<Rightarrow> decimal \<Rightarrow> arg \<Rightarrow> call" where
  "stop_market_call symbol side sl_price quantity =
     futures_create_order
       [(''symbol'', Val (PStr symbol)), (''side'', Val (PStr side)),
        (''type'', Val (PStr ''STOP_MARKET'')),
        (''stopPrice'', Val (PStr (decimal_str sl_price))),
        (''closePosition'', Val (PBool False)), (''quantity'', quantity)]"

text \<open>
  \<^verbatim>\<open>place_oco\<close> places the take-profit and the stop order and starts the watcher thread. An
  exception of either placement is logged and raised again: no watcher then. The thread is
  the function \<open>watcher\<close> below, run on the calls made so far.
\<close>

definition place_oco ::
  "client \<Rightarrow> string \<Rightarrow> string \<Rightarrow> decimal \<Rightarrow> decimal \<Rightarrow> decimal \<Rightarrow> bool \<Rightarrow> call list
     \<Rightarrow> (exn + pyval) \<times> call list" where
  "place_oco client symbol side qty tp_price sl_price dry_run h =
     (case live dry_run client of
        None \<Rightarrow> (Inr (PDict [(''status'', PStr ''DRY_RUN'')]), h)
      | Some gw \<Rightarrow>
          (let tp_side = side;
               sl_side = (if side = ''BUY'' then ''SELL'' else ''BUY'')
           in case decimal_float qty of
                Inl e \<Rightarrow> (Inl e, h)
              | Inr quantity \<Rightarrow>
                  (case gw h (limit_call symbol tp_side ''GTC'' quantity tp_price) of
                     Raise e \<Rightarrow> (Inl e, h @ [limit_call symbol tp_side ''GTC'' quantity tp_price])
                   | Return tp_order \<Rightarrow>
                       (case gw (h @ [limit_call symbol tp_side ''GTC'' quantity tp_price])
                               (stop_market_call symbol sl_side sl_price quantity) of
                          Raise e \<Rightarrow>
                            (Inl e,
                             h @ [limit_call symbol tp_side ''GTC'' quantity tp_price,
                                  stop_market_call symbol sl_side sl_price quantity])
                        | Return sl_order \<Rightarrow>
                            (Inr (PDict [(''tp'', PDict tp_order), (''sl'', PDict sl_order)]),
                             h @ [limit_call symbol tp_side ''GTC'' quantity tp_price,
                                  stop_market_call symbol sl_side sl_price quantity])))))"

text \<open>The calls of the watcher.\<close>

definition get_order :: "string \<Rightarrow> (string \<times> pyval) list \<Rightarrow> call" where
  "get_order symbol order =
     futures_get_order
       [(''symbol'', Val (PStr symbol)), (''orderId'', Val (dict_get order ''orderId''))]"

definition cancel_order :: "string \<Rightarrow> (string \<times> pyval) list \<Rightarrow> call" where
  "cancel_order symbol order =
     futures_cancel_order
       [(''symbol'', Val (PStr symbol)), (''orderId'', Val (dict_get order ''orderId''))]"

text \<open>
  How the watcher ends: the line it logs before \<^verbatim>\<open>break\<close>, \<^verbatim>\<open>TP filled - cancelled SL\<close> or
  \<^verbatim>\<open>SL filled - cancelled TP\<close>.
\<close>

datatype closed = TP_FILLED | SL_FILLED

text \<open>
  One turn of \<^verbatim>\<open>while True\<close>, lines 58-72: both queries, then the check of the take-profit
  order before that of the stop order. Any exception is logged and the turn is over; the
  loop goes on after \<^verbatim>\<open>time.sleep(2)\<close>, which raises nothing. The result is how the watcher
  ended, if it did, and the calls made.
\<close>

definition watcher_poll ::
  "gateway \<Rightarrow> string \<Rightarrow> (string \<times> pyval) list \<Rightarrow> (string \<times> pyval) list \<Rightarrow> call list
     \<Rightarrow> closed option \<times> call list" where
  "watcher_poll gw symbol tp_order sl_order h =
     (let q1 = get_order symbol tp_order;
          q2 = get_order symbol sl_order
      in case gw h q1 of
           Raise e \<Rightarrow> (None, h @ [q1])
         | Return tp_status \<Rightarrow>
             (case gw (h @ [q1]) q2 of
                Raise e \<Rightarrow> (None, h @ [q1, q2])
              | Return sl_status \<Rightarrow>
                  if dict_get tp_status ''status'' = PStr ''FILLED''
                  then (case gw (h @ [q1, q2]) (cancel_order symbol sl_order) of
                          Raise e \<Rightarrow> (None, h @ [q1, q2, cancel_order symbol sl_order])
                        | Return r \<Rightarrow> (Some TP_FILLED, h @ [q1, q2, cancel_order symbol sl_order]))
                  else if dict_get sl_status ''status'' = PStr ''FILLED''
                  then (case gw (h @ [q1, q2]) (cancel_order symbol tp_order) of
                          Raise e \<Rightarrow> (None, h @ [q1, q2, cancel_order symbol tp_order])
                        | Return r \<Rightarrow> (Some SL_FILLED, h @ [q1, q2, cancel_order symbol tp_order]))
                  else (None, h @ [q1, q2])))"

text \<open>
  The loop, for at most \<open>n\<close> turns: \<open>None\<close> when the watcher is still watching after them.
\<close>

fun watcher ::
  "nat \<Rightarrow> gateway \<Rightarrow> string \<Rightarrow> (string \<times> pyval) list \<Rightarrow> (string \<times> pyval) list \<Rightarrow> call list
     \<Rightarrow> closed option \<times> call list" where
  "watcher 0 gw symbol tp_order sl_order h = (None, h)"
| "watcher (Suc n) gw symbol tp_order sl_order h =
     (case watcher_poll gw symbol tp_order sl_order h of
        (Some c, h') \<Rightarrow> (Some c, h')
      | (None, h') \<Rightarrow> watcher n gw symbol tp_order sl_order h')"

section \<open>Stop-limit: \<^verbatim>\<open>advanced/stop_limit.py\<close>\<close>

text \<open>Lines 48-49: the price of one poll.\<close>

definition ticker_call :: "string \<Rightarrow> call" where
  "ticker_call symbol = futures_symbol_ticker [(''symbol'', Val (PStr symbol))]"

definition poll_price :: "gateway \<Rightarrow> string \<Rightarrow> call list \<Rightarrow> exn + decimal" where
  "poll_price gw symbol h =
     (case gw h (ticker_call symbol) of
        Raise e \<Rightarrow> Inl e
      | Return ticker \<Rightarrow> Decimal_of_pyval (dict_get ticker ''price''))"

text \<open>
  Line 53:
  \<^verbatim>\<open>(side == "BUY" and price >= stop_price) or (side == "SELL" and price <= stop_price)\<close>
\<close>

definition stop_hit :: "string \<Rightarrow> decimal \<Rightarrow> decimal \<Rightarrow> exn + bool" where
  "stop_hit side price stop_price =
     (if side = ''BUY'' then decimal_ge price stop_price
      else if side = ''SELL'' then decimal_le price stop_price
      else Inr False)"

text \<open>
  One turn of the loop, lines 47-66. The \<^verbatim>\<open>try\<close> covers the query, the conversion, the
  comparison and the placement: whatever raises is logged and the turn is over.
\<close>

definition stop_limit_poll ::
  "gateway \<Rightarrow> string \<Rightarrow> string \<Rightarrow> decimal \<Rightarrow> decimal \<Rightarrow> decimal \<Rightarrow> call list
     \<Rightarrow> pyval option \<times> call list" where
  "stop_limit_poll gw symbol side qty stop_price limit_price h =
     (case poll_price gw symbol h of
        Inl e \<Rightarrow> (None, h @ [ticker_call symbol])
      | Inr price \<Rightarrow>
          (case stop_hit side price stop_price of
             Inl e \<Rightarrow> (None, h @ [ticker_call symbol])
           | Inr hit \<Rightarrow>
               if hit
               then (case decimal_float qty of
                       Inl e \<Rightarrow> (None, h @ [ticker_call symbol])
                     | Inr quantity \<Rightarrow>
                         (case gw (h @ [ticker_call symbol])
                                 (limit_call symbol side ''GTC'' quantity limit_price) of
                            Raise e \<Rightarrow>
                              (None,
                               h @ [ticker_call symbol,
                                    limit_call symbol side ''GTC'' quantity limit_price])
                          | Return order \<Rightarrow>
                              (Some (PDict order),
                               h @ [ticker_call symbol,
                                    limit_call symbol side ''GTC'' quantity limit_price])))
               else (None, h @ [ticker_call symbol])))"

text \<open>
  The loop, for at most \<open>n\<close> turns: \<open>None\<close> when the watcher is still watching after them.
  After a turn that placed no order comes \<^verbatim>\<open>time.sleep(poll_interval)\<close>, line 67, outside the
  \<^verbatim>\<open>try\<close>: what it raises ends the watcher.
\<close>

fun stop_limit_loop ::
  "nat \<Rightarrow> platform \<Rightarrow> gateway \<Rightarrow> string \<Rightarrow> string \<Rightarrow> decimal \<Rightarrow> decimal \<Rightarrow> decimal \<Rightarrow> int
     \<Rightarrow> call list \<Rightarrow> (exn + pyval) option \<times> call list" where
  "stop_limit_loop 0 os gw symbol side qty stop_price limit_price poll_interval h = (None, h)"
| "stop_limit_loop (Suc n) os gw symbol side qty stop_price limit_price poll_interval h =
     (case stop_limit_poll gw symbol side qty stop_price limit_price h of
        (Some order, h') \<Rightarrow> (Some (Inr order), h')
      | (None, h') \<Rightarrow>
          (case time_sleep_int os poll_interval of
             Some e \<Rightarrow> (Some (Inl e), h')
           | None \<Rightarrow> stop_limit_loop n os gw symbol side qty stop_price limit_price poll_interval h'))"

text \<open>
  \<^verbatim>\<open>stop_limit_watch_and_place\<close>, with the number of polls allowed to the live loop and the
  platform as its first arguments. The poll interval is an int (the script reads it with \<^verbatim>\<open>type=int\<close>, the default
  is \<open>2\<close>). The dry run sleeps twice, lines 41-43, and returns its record.
\<close>

definition stop_limit_watch_and_place ::
  "nat \<Rightarrow> platform \<Rightarrow> client \<Rightarrow> string \<Rightarrow> string \<Rightarrow> decimal \<Rightarrow> decimal \<Rightarrow> decimal \<Rightarrow> bool
     \<Rightarrow> int \<Rightarrow> call list \<Rightarrow> (exn + pyval) option \<times> call list" where
  "stop_limit_watch_and_place n os client symbol side qty stop_price limit_price dry_run
     poll_interval h =
     (case live dry_run client of
        None \<Rightarrow>
          (case time_sleep_int os poll_interval of
             Some e \<Rightarrow> (Some (Inl e), h)
           | None \<Rightarrow>
               (case time_sleep_int os poll_interval of
                  Some e \<Rightarrow> (Some (Inl e), h)
                | None \<Rightarrow>
                    (Some (Inr (PDict [(''status'', PStr ''DRY_RUN''), (''symbol'', PStr symbol),
                                       (''side'', PStr side), (''qty'', PStr (decimal_str qty)),
                                       (''stop'', PStr (decimal_str stop_price)),
                                       (''limit'', PStr (decimal_str limit_price))])), h)))
      | Some gw \<Rightarrow> stop_limit_loop n os gw symbol side qty stop_price limit_price poll_interval h)"

section \<open>Grid: \<^verbatim>\<open>advanced/grid_strategy.py\<close>\<close>

text \<open>This script leaves the context as the library sets it: 28 digits, half-even.\<close>

definition default_prec :: nat where
  "default_prec = 28"

text \<open>Line 42.\<close>

definition grid_step_size :: "decimal \<Rightarrow> decimal \<Rightarrow> int \<Rightarrow> exn + decimal" where
  "grid_step_size low high steps =
     (case decimal_sub default_prec high low of
        Inl e \<Rightarrow> Inl e
      | Inr width \<Rightarrow> decimal_truediv default_prec width (Finite (Decimal_of_int steps)))"

text \<open>Line 46: the price of level \<open>i\<close>, at two decimals.\<close>

definition grid_price :: "decimal \<Rightarrow> decimal \<Rightarrow> nat \<Rightarrow> exn + decimal" where
  "grid_price low step_size i =
     (case decimal_mul default_prec step_size (Finite (Decimal_of_int (int i))) of
        Inl e \<Rightarrow> Inl e
      | Inr offset \<Rightarrow>
          (case decimal_add default_prec low offset of
             Inl e \<Rightarrow> Inl e
           | Inr x \<Rightarrow>
               decimal_quantize default_prec x (Finite (Dec False 100 (- 2))) ROUND_HALF_EVEN))"

definition grid_dry_record :: "decimal \<Rightarrow> decimal \<Rightarrow> pyval" where
  "grid_dry_record qty_per_order price =
     PDict [(''price'', PStr (decimal_str price)), (''qty'', PStr (decimal_str qty_per_order)),
            (''status'', PStr ''DRY_RUN'')]"

text \<open>
  One turn of the loop, lines 46-62. The price is computed outside the \<^verbatim>\<open>try\<close>: an exception
  of the arithmetic ends \<^verbatim>\<open>create_grid\<close>, with the calls made so far. An exception of the
  conversion of the quantity or of the placement is logged, and nothing is appended.
\<close>

definition grid_level ::
  "client \<Rightarrow> string \<Rightarrow> decimal \<Rightarrow> decimal \<Rightarrow> decimal \<Rightarrow> bool \<Rightarrow> nat
     \<Rightarrow> (exn + pyval list) \<times> call list \<Rightarrow> (exn + pyval list) \<times> call list" where
  "grid_level client symbol low step_size qty_per_order dry_run i st =
     (case st of
        (Inl e, h) \<Rightarrow> (Inl e, h)
      | (Inr orders, h) \<Rightarrow>
          (case grid_price low step_size i of
             Inl e \<Rightarrow> (Inl e, h)
           | Inr price \<Rightarrow>
               (case live dry_run client of
                  None \<Rightarrow> (Inr (orders @ [grid_dry_record qty_per_order price]), h)
                | Some gw \<Rightarrow>
                    (case decimal_float qty_per_order of
                       Inl e \<Rightarrow> (Inr orders, h)
                     | Inr quantity \<Rightarrow>
                         (case gw h (limit_call symbol ''BUY'' ''GTC'' quantity price) of
                            Return res \<Rightarrow>
                              (Inr (orders @ [PDict res]),
                               h @ [limit_call symbol ''BUY'' ''GTC'' quantity price])
                          | Raise e \<Rightarrow>
                              (Inr orders,
                               h @ [limit_call symbol ''BUY'' ''GTC'' quantity price]))))))"

text \<open>\<^verbatim>\<open>create_grid\<close>: the check \<^verbatim>\<open>low >= high\<close>, the step size, the loop over \<^verbatim>\<open>range(steps + 1)\<close>.\<close>

definition create_grid ::
  "client \<Rightarrow> string \<Rightarrow> decimal \<Rightarrow> decimal \<Rightarrow> int \<Rightarrow> decimal \<Rightarrow> bool \<Rightarrow> call list
     \<Rightarrow> (exn + pyval list) \<times> call list" where
  "create_grid client symbol low high steps qty_per_order dry_run h =
     (case decimal_ge low high of
        Inl e \<Rightarrow> (Inl e, h)
      | Inr ge \<Rightarrow>
          if ge then (Inl (ValueError ''low must be < high''), h)
          else (case grid_step_size low high steps of
                  Inl e \<Rightarrow> (Inl e, h)
                | Inr step_size \<Rightarrow>
                    fold (grid_level client symbol low step_size qty_per_order dry_run)
                      [0..<nat (steps + 1)] (Inr [], h)))"

section \<open>Gateways for the examples\<close>

text \<open>A client library whose every call fails.\<close>

definition unreachable_Client :: "string \<Rightarrow> string \<Rightarrow> gateway" where
  "unreachable_Client key secret = (\<lambda>h c. Raise (GatewayError ''unreachable''))"

text \<open>
  A gateway that numbers the orders it takes by the calls made before, and fails on the
  second call made to it.
\<close>

definition flaky_gateway :: gateway where
  "flaky_gateway =
     (\<lambda>h c. if length h = Suc 0 then Raise (GatewayError ''timeout'')
             else Return [(''orderId'', PInt (int (length h)))])"

text \<open>
  A platform that lets every sleep run, and one whose clock, ten seconds after its start,
  ends with the 64 bits of its nanoseconds.
\<close>

definition patient_platform :: platform where
  "patient_platform = (\<lambda>ns. None)"

definition ten_seconds_up :: platform where
  "ten_seconds_up = (\<lambda>ns. if 2 ^ 63 \<le> 10 ^ 10 + ns then Some OSError else None)"

section \<open>Records\<close>

text \<open>A result that is a dictionary whose \<^verbatim>\<open>status\<close> is \<open>s\<close>.\<close>

definition has_status :: "string \<Rightarrow> pyval \<Rightarrow> bool" where
  "has_status s r =
     (case r of
        PDict d \<Rightarrow> dict_get d ''status'' = PStr s
      | PStr x \<Rightarrow> False
      | PInt n \<Rightarrow> False
      | PBool b \<Rightarrow> False
      | PNone \<Rightarrow> False)"

section \<open>Evaluation\<close>

text \<open>The equations that compute a decimal operation, and a printed decimal, on numerals.\<close>

lemmas dec_eval =
  dec_div_def dec_mul_def dec_add_def dec_neg_def dec_quantize_def fix_ctx_def
  rescale_def round_up_def adjusted_def signed_def Decimal_of_int_def dec_le_def
  Emax_def Emin_def Etiny_def Etop_def ndigits.simps strip_zeros.simps Let_def

lemmas decimal_eval =
  decimal_add_def decimal_sub_def decimal_mul_def decimal_truediv_def decimal_quantize_def
  decimal_le_def decimal_ge_def check_nans_def finite_result_def copy_negate_def is_zero_def
  sign_of_def is_nan_def inf_rank_def

lemma replicate_numeral: "replicate (numeral k) x = x # replicate (pred_numeral k) x"
  by (simp add: numeral_eq_Suc)

lemmas str_eval =
  decimal_str_def str_dec_def digits_of.simps digit_char_def show_exp_def replicate_numeral
  Let_def

text \<open>A run of no duration: the interval is \<open>0.0\<close>, and a sleep of no time returns.\<close>

lemma no_duration:
  "twap_interval 0 3 = Inr (Float False 0 0)"
  "twap_interval 0 1 = Inr (Float False 0 0)"
  "time_sleep os (Float False 0 0) = None"
  by (simp_all add: twap_interval_def int_truediv_def time_sleep_def)

section \<open>TWAP: the sum of the chunks\<close>

lemma slices_20000_3:
  "twap_slices (Finite (Dec False 20000 0)) 3
     = Inr (Finite (Dec False 666666666667 (- 8)), Finite (Dec False 0 (- 7)))"
  by (simp add: twap_slices_def twap_prec_def decimal_eval dec_eval)

lemma execute_qty_20000_3:
  "execute_qty (Finite (Dec False 666666666667 (- 8))) (Finite (Dec False 0 (- 7))) 3 0
     = Inr (Finite (Dec False 666666666667 (- 8)))"
  "execute_qty (Finite (Dec False 666666666667 (- 8))) (Finite (Dec False 0 (- 7))) 3 (Suc 0)
     = Inr (Finite (Dec False 666666666667 (- 8)))"
  "execute_qty (Finite (Dec False 666666666667 (- 8))) (Finite (Dec False 0 (- 7))) 3
     (Suc (Suc 0)) = Inr (Finite (Dec False 666666666667 (- 8)))"
  by (simp_all add: execute_qty_def twap_prec_def decimal_eval dec_eval)

lemma str_6666: "decimal_str (Finite (Dec False 666666666667 (- 8))) = ''6666.66666667''"
  by (simp add: str_eval)

lemma run_twap_20000_3:
  "run_twap os None ''BTCUSDT'' ''BUY'' (Finite (Dec False 20000 0)) 3 0 True [] =
     (Inr [PDict [(''chunk'', PInt 1), (''status'', PStr ''DRY_RUN''),
                  (''qty'', PStr ''6666.66666667'')],
           PDict [(''chunk'', PInt 2), (''status'', PStr ''DRY_RUN''),
                  (''qty'', PStr ''6666.66666667'')],
           PDict [(''chunk'', PInt 3), (''status'', PStr ''DRY_RUN''),
                  (''qty'', PStr ''6666.66666667'')]], [])"
  by (simp add: run_twap_def slices_20000_3 no_duration twap_chunk_def twap_place_def live_def
      twap_dry_record_def execute_qty_20000_3 str_6666 upt_rec)

lemma sum_6666:
  "sum_list (map dec_val [Dec False 666666666667 (- 8), Dec False 666666666667 (- 8),
                          Dec False 666666666667 (- 8)])
     = dec_val (Dec False 20000 0) + 1 / 10 ^ 8"
  by (simp add: dec_val_def signed_def)

lemma slices_10000_1: "twap_slices (Finite (Dec False 10000 0)) 1 = Inl InvalidOperation"
  by (simp add: twap_slices_def twap_prec_def decimal_eval dec_eval)

lemma run_twap_10000_1:
  "run_twap os None ''BTCUSDT'' ''BUY'' (Finite (Dec False 10000 0)) 1 0 True []
     = (Inl InvalidOperation, [])"
  by (simp add: run_twap_def slices_10000_1)

text \<open>
  Claim C1: for every total quantity \<open>T > 0\<close> and chunk count \<open>N \<ge> 1\<close> the \<open>N\<close> chunk
  quantities of \<^verbatim>\<open>run_twap\<close> sum to \<open>T\<close> exactly, under the 12 digits of precision the module
  sets. The code does not keep this. With a total of \<open>20000\<close> in \<open>3\<close> chunks the quotient
  \<open>6666.666...\<close> is first rounded to 12 digits, \<open>6666.66666667\<close>, which rounding down to 8
  places leaves as it is; three times that is \<open>20000.00000001\<close>, which 12 digits round to
  \<open>20000.0000000\<close>, so the remainder is \<open>0\<close>: the three chunks are \<open>6666.66666667\<close> each and
  sum to \<open>20000.00000001\<close>. With a total of \<open>10000\<close> in one chunk \<^verbatim>\<open>quantize\<close> would need 13
  digits and raises \<^verbatim>\<open>InvalidOperation\<close>: no chunk at all.
\<close>

theorem twap_chunks_do_not_sum_to_total:
  "twap_slices (Finite (Dec False 20000 0)) 3
     = Inr (Finite (Dec False 666666666667 (- 8)), Finite (Dec False 0 (- 7)))
   \<and> map (execute_qty (Finite (Dec False 666666666667 (- 8))) (Finite (Dec False 0 (- 7))) 3)
       [0, Suc 0, Suc (Suc 0)]
       = [Inr (Finite (Dec False 666666666667 (- 8))), Inr (Finite (Dec False 666666666667 (- 8))),
          Inr (Finite (Dec False 666666666667 (- 8)))]
   \<and> sum_list (map dec_val [Dec False 666666666667 (- 8), Dec False 666666666667 (- 8),
                           Dec False 666666666667 (- 8)])
       = dec_val (Dec False 20000 0) + 1 / 10 ^ 8
   \<and> fst (run_twap os None ''BTCUSDT'' ''BUY'' (Finite (Dec False 20000 0)) 3 0 True []) =
       Inr [PDict [(''chunk'', PInt 1), (''status'', PStr ''DRY_RUN''),
                   (''qty'', PStr ''6666.66666667'')],
            PDict [(''chunk'', PInt 2), (''status'', PStr ''DRY_RUN''),
                   (''qty'', PStr ''6666.66666667'')],
            PDict [(''chunk'', PInt 3), (''status'', PStr ''DRY_RUN''),
                   (''qty'', PStr ''6666.66666667'')]]
   \<and> fst (run_twap os None ''BTCUSDT'' ''BUY'' (Finite (Dec False 10000 0)) 1 0 True [])
       = Inl InvalidOperation"
  using slices_20000_3 execute_qty_20000_3 sum_6666 run_twap_20000_3 run_twap_10000_1
  by simp

section \<open>Validation of quantities and prices\<close>

lemmas parse_eval =
  Decimal_of_str_def parse_nan_def parse_number_def parse_exp_def nat_of_digits_def
  digit_val_def is_digit_def strip_def is_space_def lower_def Let_def

text \<open>What the validators do, by what \<^verbatim>\<open>Decimal(str)\<close> makes of the string.\<close>

lemma Decimal_of_str_error: "Decimal_of_str s = Inl e \<Longrightarrow> e = InvalidOperation"
  by (auto simp: Decimal_of_str_def Let_def split: if_splits option.splits prod.splits)

lemma dec_le_zero: "dec_le d (Dec False 0 0) \<longleftrightarrow> dint d = 0 \<or> dsign d"
proof -
  have "\<not> (10::int) ^ k \<le> 0" for k
    by (simp add: not_le)
  then show ?thesis
    by (simp add: dec_le_def signed_def Let_def mult_le_0_iff)
qed

lemma decimal_le_zero:
  "decimal_le (Finite d) (Finite (Dec False 0 0)) = Inr (dint d = 0 \<or> dsign d)"
  "decimal_le (Infinity neg) (Finite (Dec False 0 0)) = Inr neg"
  "decimal_le (NaN neg sig diag) (Finite (Dec False 0 0)) = Inl InvalidOperation"
  by (simp_all add: decimal_le_def is_nan_def inf_rank_def dec_le_zero)

lemma validate_quantity_unreadable:
  "Decimal_of_str s = Inl e \<Longrightarrow>
   validate_quantity s = Inl (ValueError ''Quantity must be a decimal number'')"
  by (frule Decimal_of_str_error) (simp add: validate_quantity_def)

lemma validate_price_unreadable:
  "Decimal_of_str s = Inl e \<Longrightarrow>
   validate_price s = Inl (ValueError ''Price must be a decimal number'')"
  by (frule Decimal_of_str_error) (simp add: validate_price_def)

lemma validate_quantity_finite:
  "Decimal_of_str s = Inr (Finite d) \<Longrightarrow>
   validate_quantity s =
     (if dint d = 0 \<or> dsign d then Inl (ValueError ''Quantity must be > 0'') else Inr (Finite d))"
  by (simp add: validate_quantity_def decimal_le_zero)

lemma validate_price_finite:
  "Decimal_of_str s = Inr (Finite d) \<Longrightarrow>
   validate_price s =
     (if dint d = 0 \<or> dsign d then Inl (ValueError ''Price must be > 0'') else Inr (Finite d))"
  by (simp add: validate_price_def decimal_le_zero)

lemma validate_quantity_infinity:
  "Decimal_of_str s = Inr (Infinity neg) \<Longrightarrow>
   validate_quantity s =
     (if neg then Inl (ValueError ''Quantity must be > 0'') else Inr (Infinity False))"
  by (simp add: validate_quantity_def decimal_le_zero)

lemma validate_quantity_nan:
  "Decimal_of_str s = Inr (NaN neg sig diag) \<Longrightarrow> validate_quantity s = Inl InvalidOperation"
  by (simp add: validate_quantity_def decimal_le_zero)

lemma validate_price_same:
  "(validate_price s = Inr d) = (validate_quantity s = Inr d)"
  by (auto simp: validate_price_def validate_quantity_def split: sum.splits if_splits)

text \<open>
  Claim C9: \<^verbatim>\<open>validate_quantity\<close> and \<^verbatim>\<open>validate_price\<close> reject zero, negative and non-numeric
  strings by a validation error (\<^verbatim>\<open>ValueError\<close>), and accept exactly the strings of positive
  decimal numbers. The code misses two cases. \<^verbatim>\<open>Decimal("NaN")\<close> is read without error, and
  the comparison \<^verbatim>\<open>d <= 0\<close>, which stands after the \<^verbatim>\<open>try\<close>, raises \<^verbatim>\<open>InvalidOperation\<close>:
  the string is not a number, and what leaves the validator is not a \<^verbatim>\<open>ValueError\<close>.
  \<^verbatim>\<open>Decimal("Infinity")\<close> is read and is not \<^verbatim>\<open><= 0\<close>: the validator accepts it.
\<close>

theorem validators_miss_nan_and_infinity:
  "validate_quantity ''NaN'' = Inl InvalidOperation
   \<and> validate_price ''NaN'' = Inl InvalidOperation
   \<and> validate_quantity ''Infinity'' = Inr (Infinity False)
   \<and> validate_price ''Infinity'' = Inr (Infinity False)"
  by (simp add: validate_quantity_def validate_price_def decimal_le_zero parse_eval)

lemmas float_eval =
  twap_interval_def int_truediv_def time_sleep_def time_sleep_int_def nearest_double_def
  floor_log2_def half_even_div_def bit_length.simps Let_def

section \<open>The loop of TWAP in closed form\<close>

lemma twap_place_live:
  "live d1 c1 = live d2 c2 \<Longrightarrow>
   twap_place c1 symbol side d1 i qty st = twap_place c2 symbol side d2 i qty st"
  by (simp add: twap_place_def)

lemma twap_place_dry:
  "live dry_run client = None \<Longrightarrow>
   twap_place client symbol side dry_run i qty (results, h)
     = (results @ [twap_dry_record i qty], h)"
  by (simp add: twap_place_def)

lemma twap_place_placed:
  "live dry_run client = Some gw \<Longrightarrow> decimal_float qty = Inr quantity \<Longrightarrow>
   twap_place client symbol side dry_run i qty (results, h) =
     (results @ [case gw h (twap_call symbol side quantity) of
                   Return res \<Rightarrow> PDict res
                 | Raise e \<Rightarrow> twap_error_record i],
      h @ [twap_call symbol side quantity])"
  by (simp add: twap_place_def split: reply.splits)

lemma twap_chunk_live:
  "live d1 c1 = live d2 c2 \<Longrightarrow>
   twap_chunk os c1 symbol side q r chunks iv d1 i st
     = twap_chunk os c2 symbol side q r chunks iv d2 i st"
  by (simp add: twap_chunk_def twap_place_live [of d1 c1 d2 c2] split: sum.splits prod.splits)

lemma twap_fold_same:
  "live d1 c1 = live d2 c2 \<Longrightarrow>
   fold (twap_chunk os c1 symbol side q r chunks iv d1) ns st
     = fold (twap_chunk os c2 symbol side q r chunks iv d2) ns st"
  by (induction ns arbitrary: st) (simp_all add: twap_chunk_live [of d1 c1 d2 c2])

lemma run_twap_same:
  "live d1 c1 = live d2 c2 \<Longrightarrow>
   run_twap os c1 symbol side total_qty chunks duration_s d1 h
     = run_twap os c2 symbol side total_qty chunks duration_s d2 h"
  by (simp add: run_twap_def twap_fold_same [of d1 c1 d2 c2] split: sum.splits prod.splits)

lemma dry_record_status:
  "has_status ''DRY_RUN'' (twap_dry_record i qty)"
  by (simp add: has_status_def twap_dry_record_def dict_get_def)

text \<open>
  A turn of the dry run makes no call, and adds one record of status \<^verbatim>\<open>DRY_RUN\<close> unless it
  raises.
\<close>

lemma twap_chunk_dry_step:
  assumes "live dry_run client = None"
    and "snd st = h"
    and "\<And>rs. fst st = Inr rs \<Longrightarrow> length rs = n \<and> list_all (has_status ''DRY_RUN'') rs"
  shows "snd (twap_chunk os client symbol side q r chunks iv dry_run i st) = h"
    and "fst (twap_chunk os client symbol side q r chunks iv dry_run i st) = Inr rs' \<Longrightarrow>
         length rs' = Suc n \<and> list_all (has_status ''DRY_RUN'') rs'"
  using assms
  by (cases st; cases "fst st";
      auto simp: twap_chunk_def twap_place_dry dry_record_status
           split: sum.splits option.splits if_splits)+

lemma twap_fold_dry_step:
  assumes "live dry_run client = None"
  shows "snd (fold (twap_chunk os client symbol side q r chunks iv dry_run) [0..<n] (Inr [], h))
           = h
         \<and> (\<forall>rs. fst (fold (twap_chunk os client symbol side q r chunks iv dry_run) [0..<n]
                         (Inr [], h)) = Inr rs \<longrightarrow>
                length rs = n \<and> list_all (has_status ''DRY_RUN'') rs)"
proof (induction n)
  case 0
  show ?case
    by simp
next
  case (Suc n)
  let ?st = "fold (twap_chunk os client symbol side q r chunks iv dry_run) [0..<n] (Inr [], h)"
  have a: "snd ?st = h"
    using Suc by simp
  have b: "length rs = n \<and> list_all (has_status ''DRY_RUN'') rs" if "fst ?st = Inr rs" for rs
    using Suc that by simp
  from twap_chunk_dry_step [OF assms a b, of os symbol side q r chunks iv n]
  show ?case
    by simp
qed

lemma run_twap_dry_records:
  assumes "live dry_run client = None"
  shows "snd (run_twap os client symbol side total_qty chunks duration_s dry_run h) = h"
    and "fst (run_twap os client symbol side total_qty chunks duration_s dry_run h) = Inr rs \<Longrightarrow>
         length rs = nat chunks \<and> list_all (has_status ''DRY_RUN'') rs"
  using twap_fold_dry_step [OF assms, of os symbol side _ _ chunks _ "nat chunks" h]
  by (auto simp: run_twap_def split: sum.splits prod.splits)

text \<open>The dry run whose quantities are computed and whose sleeps return.\<close>

lemma twap_fold_dry:
  assumes "live dry_run client = None"
    and "\<forall>i<n. execute_qty q r chunks i = Inr (x i)"
    and "chunks \<le> 1 \<or> time_sleep os iv = None"
  shows "fold (twap_chunk os client symbol side q r chunks iv dry_run) [0..<n] (Inr acc, h) =
           (Inr (acc @ map (\<lambda>i. twap_dry_record i (x i)) [0..<n]), h)"
  using assms by (induction n) (auto simp: twap_chunk_def twap_place_dry)

lemma run_twap_dry:
  assumes "live dry_run client = None"
    and "twap_slices total_qty chunks = Inr (q, r)"
    and "twap_interval duration_s chunks = Inr iv"
    and "chunks \<le> 1 \<or> time_sleep os iv = None"
    and "\<forall>i<nat chunks. execute_qty q r chunks i = Inr (x i)"
  shows "run_twap os client symbol side total_qty chunks duration_s dry_run h =
           (Inr (map (\<lambda>i. twap_dry_record i (x i)) [0..<nat chunks]), h)"
  using twap_fold_dry [OF assms(1,5,4), of symbol side "[]" h] assms(2,3)
  by (simp add: run_twap_def)

text \<open>The live run whose quantities are computed and whose sleeps return.\<close>

lemma twap_fold_live:
  assumes "live dry_run client = Some gw"
    and "\<forall>i<n. execute_qty q r chunks i = Inr (x i)"
    and "\<forall>i<n. decimal_float (x i) = Inr (f i)"
    and "chunks \<le> 1 \<or> time_sleep os iv = None"
  shows "fold (twap_chunk os client symbol side q r chunks iv dry_run) [0..<n] (Inr acc, h) =
           (Inr (acc @ map (\<lambda>i. case gw (h @ map (\<lambda>j. twap_call symbol side (f j)) [0..<i])
                                        (twap_call symbol side (f i)) of
                                Return res \<Rightarrow> PDict res
                              | Raise e \<Rightarrow> twap_error_record i) [0..<n]),
            h @ map (\<lambda>i. twap_call symbol side (f i)) [0..<n])"
  using assms
  by (induction n) (auto simp: twap_chunk_def twap_place_placed [where gw = gw])

lemma run_twap_live:
  assumes "twap_slices total_qty chunks = Inr (q, r)"
    and "twap_interval duration_s chunks = Inr iv"
    and "chunks \<le> 1 \<or> time_sleep os iv = None"
    and "\<forall>i<nat chunks. execute_qty q r chunks i = Inr (x i)"
    and "\<forall>i<nat chunks. decimal_float (x i) = Inr (f i)"
  shows "run_twap os (Some gw) symbol side total_qty chunks duration_s False h =
           (Inr (map (\<lambda>i. case gw (h @ map (\<lambda>j. twap_call symbol side (f j)) [0..<i])
                                  (twap_call symbol side (f i)) of
                          Return res \<Rightarrow> PDict res
                        | Raise e \<Rightarrow> twap_error_record i) [0..<nat chunks]),
            h @ map (\<lambda>i. twap_call symbol side (f i)) [0..<nat chunks])"
proof -
  have "live False (Some gw) = Some gw"
    by (simp add: live_def)
  from twap_fold_live [OF this assms(4,5,3), of symbol side "[]" h] assms(1,2)
  show ?thesis
    by (simp add: run_twap_def)
qed

section \<open>The loop of the grid in closed form\<close>

lemma grid_fold_raised:
  "fold (grid_level client symbol low step qty dry_run) ns (Inl e, h) = (Inl e, h)"
  by (induction ns) (simp_all add: grid_level_def)

lemma grid_level_live:
  "live d1 c1 = live d2 c2 \<Longrightarrow>
   grid_level c1 symbol low step qty d1 i st = grid_level c2 symbol low step qty d2 i st"
  by (simp add: grid_level_def split: sum.splits prod.splits)

lemma grid_fold_same:
  "live d1 c1 = live d2 c2 \<Longrightarrow>
   fold (grid_level c1 symbol low step qty d1) ns st
     = fold (grid_level c2 symbol low step qty d2) ns st"
  by (induction ns arbitrary: st) (simp_all add: grid_level_live [of d1 c1 d2 c2])

lemma create_grid_same:
  "live d1 c1 = live d2 c2 \<Longrightarrow>
   create_grid c1 symbol low high steps qty d1 h = create_grid c2 symbol low high steps qty d2 h"
  by (simp add: create_grid_def grid_fold_same [of d1 c1 d2 c2] split: sum.splits)

lemma grid_record_status:
  "has_status ''DRY_RUN'' (grid_dry_record qty price)"
  by (simp add: has_status_def grid_dry_record_def dict_get_def)

lemma grid_level_dry_step:
  assumes "live dry_run client = None"
    and "snd st = h"
    and "\<And>rs. fst st = Inr rs \<Longrightarrow> length rs = n \<and> list_all (has_status ''DRY_RUN'') rs"
  shows "snd (grid_level client symbol low step qty dry_run i st) = h"
    and "fst (grid_level client symbol low step qty dry_run i st) = Inr rs' \<Longrightarrow>
         length rs' = Suc n \<and> list_all (has_status ''DRY_RUN'') rs'"
  using assms
  by (cases st; cases "fst st";
      auto simp: grid_level_def grid_record_status split: sum.splits option.splits if_splits)+

lemma grid_fold_dry_step:
  assumes "live dry_run client = None"
  shows "snd (fold (grid_level client symbol low step qty dry_run) [0..<n] (Inr [], h)) = h
         \<and> (\<forall>rs. fst (fold (grid_level client symbol low step qty dry_run) [0..<n] (Inr [], h))
                  = Inr rs \<longrightarrow>
                length rs = n \<and> list_all (has_status ''DRY_RUN'') rs)"
proof (induction n)
  case 0
  show ?case
    by simp
next
  case (Suc n)
  let ?st = "fold (grid_level client symbol low step qty dry_run) [0..<n] (Inr [], h)"
  have a: "snd ?st = h"
    using Suc by simp
  have b: "length rs = n \<and> list_all (has_status ''DRY_RUN'') rs" if "fst ?st = Inr rs" for rs
    using Suc that by simp
  from grid_level_dry_step [OF assms a b, of symbol low step qty n]
  show ?case
    by simp
qed

lemma create_grid_dry_records:
  assumes "live dry_run client = None"
  shows "snd (create_grid client symbol low high steps qty dry_run h) = h"
    and "fst (create_grid client symbol low high steps qty dry_run h) = Inr rs \<Longrightarrow>
         length rs = nat (steps + 1) \<and> list_all (has_status ''DRY_RUN'') rs"
  using grid_fold_dry_step [OF assms, of symbol low _ qty "nat (steps + 1)" h]
  by (auto simp: create_grid_def split: sum.splits if_splits)

lemma grid_fold_dry:
  "live dry_run client = None \<Longrightarrow> \<forall>i<n. grid_price low step i = Inr (p i) \<Longrightarrow>
   fold (grid_level client symbol low step qty dry_run) [0..<n] (Inr acc, h) =
     (Inr (acc @ map (\<lambda>i. grid_dry_record qty (p i)) [0..<n]), h)"
  by (induction n) (simp_all add: grid_level_def)

lemma create_grid_dry:
  "live dry_run client = None \<Longrightarrow> decimal_ge low high = Inr False \<Longrightarrow>
   grid_step_size low high steps = Inr step \<Longrightarrow>
   \<forall>i<nat (steps + 1). grid_price low step i = Inr (p i) \<Longrightarrow>
   create_grid client symbol low high steps qty dry_run h =
     (Inr (map (\<lambda>i. grid_dry_record qty (p i)) [0..<nat (steps + 1)]), h)"
  by (simp add: create_grid_def grid_fold_dry [where p = p])

lemma grid_fold_live:
  "live dry_run client = Some gw \<Longrightarrow> decimal_float qty = Inr quantity \<Longrightarrow>
   \<forall>i<n. grid_price low step i = Inr (p i) \<Longrightarrow>
   fold (grid_level client symbol low step qty dry_run) [0..<n] (Inr acc, h) =
     (Inr (acc @ concat (map (\<lambda>i. case gw (h @ map (\<lambda>j. limit_call symbol ''BUY'' ''GTC''
                                                             quantity (p j)) [0..<i])
                                            (limit_call symbol ''BUY'' ''GTC'' quantity (p i)) of
                                    Return res \<Rightarrow> [PDict res]
                                  | Raise e \<Rightarrow> []) [0..<n])),
      h @ map (\<lambda>i. limit_call symbol ''BUY'' ''GTC'' quantity (p i)) [0..<n])"
  by (induction n) (simp_all add: grid_level_def split: reply.splits)

lemma create_grid_live:
  "decimal_ge low high = Inr False \<Longrightarrow> grid_step_size low high steps = Inr step \<Longrightarrow>
   decimal_float qty = Inr quantity \<Longrightarrow>
   \<forall>i<nat (steps + 1). grid_price low step i = Inr (p i) \<Longrightarrow>
   create_grid (Some gw) symbol low high steps qty False h =
     (Inr (concat (map (\<lambda>i. case gw (h @ map (\<lambda>j. limit_call symbol ''BUY'' ''GTC''
                                                     quantity (p j)) [0..<i])
                                    (limit_call symbol ''BUY'' ''GTC'' quantity (p i)) of
                            Return res \<Rightarrow> [PDict res]
                          | Raise e \<Rightarrow> []) [0..<nat (steps + 1)])),
      h @ map (\<lambda>i. limit_call symbol ''BUY'' ''GTC'' quantity (p i)) [0..<nat (steps + 1)])"
  by (simp add: create_grid_def grid_fold_live [where gw = gw and p = p] live_def)

section \<open>Dry runs\<close>

lemma live_None: "dry_run \<or> client = None \<Longrightarrow> live dry_run client = None"
  by (auto simp: live_def)

lemma place_market_order_dry:
  "live dry_run client = None \<Longrightarrow>
   place_market_order client symbol side qty dry_run h =
     (Inr (PDict [(''status'', PStr ''DRY_RUN''), (''symbol'', PStr symbol),
                  (''side'', PStr side), (''qty'', PStr (decimal_str qty))]), h)"
  by (simp add: place_market_order_def)

lemma place_limit_order_dry:
  "live dry_run client = None \<Longrightarrow>
   place_limit_order client symbol side qty price tif dry_run h =
     (Inr (PDict [(''status'', PStr ''DRY_RUN''), (''symbol'', PStr symbol),
                  (''side'', PStr side), (''qty'', PStr (decimal_str qty)),
                  (''price'', PStr (decimal_str price))]), h)"
  by (simp add: place_limit_order_def)

lemma place_oco_dry:
  "live dry_run client = None \<Longrightarrow>
   place_oco client symbol side qty tp_price sl_price dry_run h =
     (Inr (PDict [(''status'', PStr ''DRY_RUN'')]), h)"
  by (simp add: place_oco_def)

lemma stop_limit_dry:
  "live dry_run client = None \<Longrightarrow>
   stop_limit_watch_and_place n os client symbol side qty stop_price limit_price dry_run
     poll_interval h =
     (case time_sleep_int os poll_interval of
        Some e \<Rightarrow> (Some (Inl e), h)
      | None \<Rightarrow>
          (Some (Inr (PDict [(''status'', PStr ''DRY_RUN''), (''symbol'', PStr symbol),
                             (''side'', PStr side), (''qty'', PStr (decimal_str qty)),
                             (''stop'', PStr (decimal_str stop_price)),
                             (''limit'', PStr (decimal_str limit_price))])), h))"
  by (simp add: stop_limit_watch_and_place_def split: option.splits)

text \<open>Every strategy in a dry run: what it returns, with the calls made so far unchanged.\<close>

lemma dry_run_all:
  assumes "live dry_run client = None"
  shows
    "place_market_order client symbol side qty dry_run h =
       (Inr (PDict [(''status'', PStr ''DRY_RUN''), (''symbol'', PStr symbol),
                    (''side'', PStr side), (''qty'', PStr (decimal_str qty))]), h)
     \<and> place_limit_order client symbol side qty price tif dry_run h =
       (Inr (PDict [(''status'', PStr ''DRY_RUN''), (''symbol'', PStr symbol),
                    (''side'', PStr side), (''qty'', PStr (decimal_str qty)),
                    (''price'', PStr (decimal_str price))]), h)
     \<and> place_oco client symbol side qty tp_price sl_price dry_run h =
       (Inr (PDict [(''status'', PStr ''DRY_RUN'')]), h)
     \<and> stop_limit_watch_and_place n os client symbol side qty stop_price limit_price dry_run
         poll_interval h =
       (case time_sleep_int os poll_interval of
          Some e \<Rightarrow> (Some (Inl e), h)
        | None \<Rightarrow>
            (Some (Inr (PDict [(''status'', PStr ''DRY_RUN''), (''symbol'', PStr symbol),
                               (''side'', PStr side), (''qty'', PStr (decimal_str qty)),
                               (''stop'', PStr (decimal_str stop_price)),
                               (''limit'', PStr (decimal_str limit_price))])), h))
     \<and> snd (run_twap os client symbol side total_qty chunks duration_s dry_run h) = h
     \<and> (\<forall>rs. fst (run_twap os client symbol side total_qty chunks duration_s dry_run h) = Inr rs
           \<longrightarrow> length rs = nat chunks \<and> list_all (has_status ''DRY_RUN'') rs)
     \<and> snd (create_grid client symbol low high steps qty dry_run h) = h
     \<and> (\<forall>rs. fst (create_grid client symbol low high steps qty dry_run h) = Inr rs
           \<longrightarrow> length rs = nat (steps + 1) \<and> list_all (has_status ''DRY_RUN'') rs)"
  using assms
  by (simp add: place_market_order_dry place_limit_order_dry stop_limit_dry place_oco_dry
      run_twap_dry_records create_grid_dry_records)

text \<open>The small inputs of the examples below.\<close>

lemma slices_2_3:
  "twap_slices (Finite (Dec False 2 0)) 3
     = Inr (Finite (Dec False 66666666 (- 8)), Finite (Dec False 2 (- 8)))"
  by (simp add: twap_slices_def twap_prec_def decimal_eval dec_eval)

lemma execute_qty_2_3:
  "\<forall>i<nat 3. execute_qty (Finite (Dec False 66666666 (- 8))) (Finite (Dec False 2 (- 8))) 3 i
      = Inr ([Finite (Dec False 66666666 (- 8)), Finite (Dec False 66666666 (- 8)),
              Finite (Dec False 66666668 (- 8))] ! i)"
proof -
  have "list_all (\<lambda>i. execute_qty (Finite (Dec False 66666666 (- 8)))
                        (Finite (Dec False 2 (- 8))) 3 i
      = Inr ([Finite (Dec False 66666666 (- 8)), Finite (Dec False 66666666 (- 8)),
              Finite (Dec False 66666668 (- 8))] ! i)) [0..<3]"
    by (simp add: upt_rec, simp add: execute_qty_def twap_prec_def decimal_eval dec_eval)
  then show ?thesis
    by (simp add: list_all_iff)
qed

lemma float_2_3:
  "\<forall>i<nat 3. decimal_float ([Finite (Dec False 66666666 (- 8)), Finite (Dec False 66666666 (- 8)),
                               Finite (Dec False 66666668 (- 8))] ! i)
      = Inr ([FloatOf (Finite (Dec False 66666666 (- 8))),
              FloatOf (Finite (Dec False 66666666 (- 8))),
              FloatOf (Finite (Dec False 66666668 (- 8)))] ! i)"
proof -
  have "list_all (\<lambda>i. decimal_float ([Finite (Dec False 66666666 (- 8)),
                                      Finite (Dec False 66666666 (- 8)),
                                      Finite (Dec False 66666668 (- 8))] ! i)
      = Inr ([FloatOf (Finite (Dec False 66666666 (- 8))),
              FloatOf (Finite (Dec False 66666666 (- 8))),
              FloatOf (Finite (Dec False 66666668 (- 8)))] ! i)) [0..<3]"
    by (simp add: upt_rec decimal_float_def)
  then show ?thesis
    by (simp add: list_all_iff)
qed

text \<open>One minute in three chunks: sleeps of \<open>20.0\<close> seconds.\<close>

lemma interval_60_3:
  "twap_interval 60 3 = Inr (Float False 5629499534213120 (- 48))"
  "(3::int) \<le> 1 \<or> time_sleep patient_platform (Float False 5629499534213120 (- 48)) = None"
  by (simp_all add: float_eval patient_platform_def)

lemma sleep_2: "time_sleep_int patient_platform 2 = None"
  by (simp add: time_sleep_int_def patient_platform_def)

lemma str_examples:
  "decimal_str (Finite (Dec False 66666666 (- 8))) = ''0.66666666''"
  "decimal_str (Finite (Dec False 66666668 (- 8))) = ''0.66666668''"
  "decimal_str (Finite (Dec False 2 (- 3))) = ''0.002''"
  "decimal_str (Finite (Dec False 1000 (- 2))) = ''10.00''"
  "decimal_str (Finite (Dec False 2000 (- 2))) = ''20.00''"
  "decimal_str (Finite (Dec False 3000 (- 2))) = ''30.00''"
  "decimal_str (Finite (Dec False 65000 0)) = ''65000''"
  "decimal_str (Finite (Dec False 64000 0)) = ''64000''"
  "decimal_str (Finite (Dec False 63900 0)) = ''63900''"
  by (simp_all add: str_eval)

lemma grid_10_30:
  "decimal_ge (Finite (Dec False 10 0)) (Finite (Dec False 30 0)) = Inr False"
  "grid_step_size (Finite (Dec False 10 0)) (Finite (Dec False 30 0)) 2
     = Inr (Finite (Dec False 10 0))"
  by (simp_all add: grid_step_size_def default_prec_def decimal_eval dec_eval)

lemma grid_10_30_prices:
  "\<forall>i<nat (2 + 1). grid_price (Finite (Dec False 10 0)) (Finite (Dec False 10 0)) i
      = Inr ([Finite (Dec False 1000 (- 2)), Finite (Dec False 2000 (- 2)),
              Finite (Dec False 3000 (- 2))] ! i)"
proof -
  have "list_all (\<lambda>i. grid_price (Finite (Dec False 10 0)) (Finite (Dec False 10 0)) i
      = Inr ([Finite (Dec False 1000 (- 2)), Finite (Dec False 2000 (- 2)),
              Finite (Dec False 3000 (- 2))] ! i)) [0..<3]"
    by (simp add: upt_rec, simp add: grid_price_def default_prec_def decimal_eval dec_eval)
  then show ?thesis
    by (simp add: list_all_iff)
qed

lemma run_twap_2_3:
  "run_twap patient_platform None ''BTCUSDT'' ''BUY'' (Finite (Dec False 2 0)) 3 60 True [] =
     (Inr [PDict [(''chunk'', PInt 1), (''status'', PStr ''DRY_RUN''),
                  (''qty'', PStr ''0.66666666'')],
           PDict [(''chunk'', PInt 2), (''status'', PStr ''DRY_RUN''),
                  (''qty'', PStr ''0.66666666'')],
           PDict [(''chunk'', PInt 3), (''status'', PStr ''DRY_RUN''),
                  (''qty'', PStr ''0.66666668'')]], [])"
proof -
  have "live True None = None"
    by (simp add: live_def)
  from run_twap_dry [OF this slices_2_3 interval_60_3 execute_qty_2_3]
  show ?thesis
    by (simp add: upt_rec twap_dry_record_def str_examples)
qed

lemma create_grid_10_30:
  "create_grid None ''BTCUSDT'' (Finite (Dec False 10 0)) (Finite (Dec False 30 0)) 2
     (Finite (Dec False 2 (- 3))) True [] =
     (Inr [PDict [(''price'', PStr ''10.00''), (''qty'', PStr ''0.002''),
                  (''status'', PStr ''DRY_RUN'')],
           PDict [(''price'', PStr ''20.00''), (''qty'', PStr ''0.002''),
                  (''status'', PStr ''DRY_RUN'')],
           PDict [(''price'', PStr ''30.00''), (''qty'', PStr ''0.002''),
                  (''status'', PStr ''DRY_RUN'')]], [])"
proof -
  have "live True None = None"
    by (simp add: live_def)
  from create_grid_dry [OF this grid_10_30 grid_10_30_prices]
  show ?thesis
    by (simp add: upt_rec grid_dry_record_def str_examples)
qed

text \<open>
  Claim C2: in a dry run (the flag set, or no client) every strategy makes no call to the
  gateway and returns a result of status \<^verbatim>\<open>DRY_RUN\<close> that echoes symbol, side, quantity and
  prices. The echo is not what every strategy does: \<^verbatim>\<open>place_oco\<close> returns the status alone.
\<close>

theorem oco_dry_run_echoes_nothing:
  "place_oco None ''BTCUSDT'' ''BUY'' (Finite (Dec False 2 (- 3))) (Finite (Dec False 65000 0))
     (Finite (Dec False 64000 0)) True []
     = (Inr (PDict [(''status'', PStr ''DRY_RUN'')]), [])
   \<and> dict_get [(''status'', PStr ''DRY_RUN'')] ''symbol'' = PNone
   \<and> dict_get [(''status'', PStr ''DRY_RUN'')] ''side'' = PNone
   \<and> dict_get [(''status'', PStr ''DRY_RUN'')] ''qty'' = PNone"
  by (simp add: place_oco_def live_def dict_get_def)

text \<open>
  Claim C2 as amended: in a dry run no strategy calls the gateway, and every record a
  strategy returns has status \<^verbatim>\<open>DRY_RUN\<close>. The market order echoes symbol, side and quantity;
  the limit order the price too. \<^verbatim>\<open>place_oco\<close> returns the status alone. The stop-limit
  watcher first sleeps twice for the poll interval: it returns a record with symbol, side,
  quantity, stop and limit price when \<^verbatim>\<open>time.sleep\<close> takes the interval, and ends with the
  exception of \<^verbatim>\<open>time.sleep\<close> otherwise. \<^verbatim>\<open>run_twap\<close> and \<^verbatim>\<open>create_grid\<close> may end with an
  exception of their arithmetic, of the check \<open>low < high\<close> or of a sleep between chunks; when
  they return, they return one record of status \<^verbatim>\<open>DRY_RUN\<close> for each chunk or level.
  \<^verbatim>\<open>run_twap\<close> returns when the slices, the interval and the quantity of every chunk are
  computed and, with more than one chunk, the sleep of the interval returns: the record of a
  chunk has its number and its quantity. \<^verbatim>\<open>create_grid\<close> returns when \<open>low < high\<close> and the step
  size and the price of every level are computed: the record of a level has its price and the
  quantity. Neither echoes the symbol or the side.
\<close>

theorem dry_run_results:
  assumes "dry_run \<or> client = None"
  shows
    "place_market_order client symbol side qty dry_run h =
       (Inr (PDict [(''status'', PStr ''DRY_RUN''), (''symbol'', PStr symbol),
                    (''side'', PStr side), (''qty'', PStr (decimal_str qty))]), h)
     \<and> place_limit_order client symbol side qty price tif dry_run h =
       (Inr (PDict [(''status'', PStr ''DRY_RUN''), (''symbol'', PStr symbol),
                    (''side'', PStr side), (''qty'', PStr (decimal_str qty)),
                    (''price'', PStr (decimal_str price))]), h)
     \<and> place_oco client symbol side qty tp_price sl_price dry_run h =
       (Inr (PDict [(''status'', PStr ''DRY_RUN'')]), h)
     \<and> stop_limit_watch_and_place n os client symbol side qty stop_price limit_price dry_run
         poll_interval h =
       (case time_sleep_int os poll_interval of
          Some e \<Rightarrow> (Some (Inl e), h)
        | None \<Rightarrow>
            (Some (Inr (PDict [(''status'', PStr ''DRY_RUN''), (''symbol'', PStr symbol),
                               (''side'', PStr side), (''qty'', PStr (decimal_str qty)),
                               (''stop'', PStr (decimal_str stop_price)),
                               (''limit'', PStr (decimal_str limit_price))])), h))
     \<and> snd (run_twap os client symbol side total_qty chunks duration_s dry_run h) = h
     \<and> (\<forall>rs. fst (run_twap os client symbol side total_qty chunks duration_s dry_run h) = Inr rs
           \<longrightarrow> length rs = nat chunks \<and> list_all (has_status ''DRY_RUN'') rs)
     \<and> (twap_slices total_qty chunks = Inr (q, r) \<longrightarrow>
        twap_interval duration_s chunks = Inr iv \<longrightarrow>
        (chunks \<le> 1 \<or> time_sleep os iv = None) \<longrightarrow>
        (\<forall>i<nat chunks. execute_qty q r chunks i = Inr (x i)) \<longrightarrow>
        run_twap os client symbol side total_qty chunks duration_s dry_run h =
          (Inr (map (\<lambda>i. PDict [(''chunk'', PInt (int i + 1)), (''status'', PStr ''DRY_RUN''),
                                 (''qty'', PStr (decimal_str (x i)))])
                  [0..<nat chunks]), h))
     \<and> snd (create_grid client symbol low high steps qty dry_run h) = h
     \<and> (\<forall>rs. fst (create_grid client symbol low high steps qty dry_run h) = Inr rs
           \<longrightarrow> length rs = nat (steps + 1) \<and> list_all (has_status ''DRY_RUN'') rs)
     \<and> (decimal_ge low high = Inr False \<longrightarrow> grid_step_size low high steps = Inr step \<longrightarrow>
        (\<forall>i<nat (steps + 1). grid_price low step i = Inr (p i)) \<longrightarrow>
        create_grid client symbol low high steps qty dry_run h =
          (Inr (map (\<lambda>i. PDict [(''price'', PStr (decimal_str (p i))),
                                 (''qty'', PStr (decimal_str qty)),
                                 (''status'', PStr ''DRY_RUN'')])
                  [0..<nat (steps + 1)]), h))"
proof -
  have dry: "live dry_run client = None"
    by (rule live_None [OF assms])
  have twap:
    "run_twap os client symbol side total_qty chunks duration_s dry_run h =
       (Inr (map (\<lambda>i. PDict [(''chunk'', PInt (int i + 1)), (''status'', PStr ''DRY_RUN''),
                              (''qty'', PStr (decimal_str (x i)))])
               [0..<nat chunks]), h)"
    if "twap_slices total_qty chunks = Inr (q, r)" and "twap_interval duration_s chunks = Inr iv"
      and "chunks \<le> 1 \<or> time_sleep os iv = None"
      and "\<forall>i<nat chunks. execute_qty q r chunks i = Inr (x i)"
    using run_twap_dry [OF dry that, of symbol side h] by (simp add: twap_dry_record_def)
  have grid:
    "create_grid client symbol low high steps qty dry_run h =
       (Inr (map (\<lambda>i. PDict [(''price'', PStr (decimal_str (p i))),
                              (''qty'', PStr (decimal_str qty)),
                              (''status'', PStr ''DRY_RUN'')])
               [0..<nat (steps + 1)]), h)"
    if "decimal_ge low high = Inr False" and "grid_step_size low high steps = Inr step"
      and "\<forall>i<nat (steps + 1). grid_price low step i = Inr (p i)"
    using create_grid_dry [OF dry that, of symbol qty h] by (simp add: grid_dry_record_def)
  from dry_run_all [OF dry, where symbol = symbol and side = side and qty = qty and h = h
      and price = price and tif = tif and tp_price = tp_price and sl_price = sl_price and n = n
      and os = os and stop_price = stop_price and limit_price = limit_price
      and poll_interval = poll_interval and total_qty = total_qty and chunks = chunks
      and duration_s = duration_s and low = low and high = high and steps = steps]
    twap grid
  show ?thesis
    by blast
qed

theorem dry_run_results_witness:
  "place_market_order None ''BTCUSDT'' ''BUY'' (Finite (Dec False 2 (- 3))) True [] =
     (Inr (PDict [(''status'', PStr ''DRY_RUN''), (''symbol'', PStr ''BTCUSDT''),
                  (''side'', PStr ''BUY''), (''qty'', PStr ''0.002'')]), [])
   \<and> place_limit_order None ''BTCUSDT'' ''BUY'' (Finite (Dec False 2 (- 3)))
       (Finite (Dec False 65000 0)) ''GTC'' True [] =
     (Inr (PDict [(''status'', PStr ''DRY_RUN''), (''symbol'', PStr ''BTCUSDT''),
                  (''side'', PStr ''BUY''), (''qty'', PStr ''0.002''),
                  (''price'', PStr ''65000'')]), [])
   \<and> stop_limit_watch_and_place 0 patient_platform None ''BTCUSDT'' ''BUY''
       (Finite (Dec False 2 (- 3))) (Finite (Dec False 64000 0)) (Finite (Dec False 63900 0))
       True 2 [] =
     (Some (Inr (PDict [(''status'', PStr ''DRY_RUN''), (''symbol'', PStr ''BTCUSDT''),
                        (''side'', PStr ''BUY''), (''qty'', PStr ''0.002''),
                        (''stop'', PStr ''64000''), (''limit'', PStr ''63900'')])), [])
   \<and> run_twap patient_platform None ''BTCUSDT'' ''BUY'' (Finite (Dec False 2 0)) 3 60 True [] =
     (Inr [PDict [(''chunk'', PInt 1), (''status'', PStr ''DRY_RUN''),
                  (''qty'', PStr ''0.66666666'')],
           PDict [(''chunk'', PInt 2), (''status'', PStr ''DRY_RUN''),
                  (''qty'', PStr ''0.66666666'')],
           PDict [(''chunk'', PInt 3), (''status'', PStr ''DRY_RUN''),
                  (''qty'', PStr ''0.66666668'')]], [])
   \<and> create_grid None ''BTCUSDT'' (Finite (Dec False 10 0)) (Finite (Dec False 30 0)) 2
       (Finite (Dec False 2 (- 3))) True [] =
     (Inr [PDict [(''price'', PStr ''10.00''), (''qty'', PStr ''0.002''),
                  (''status'', PStr ''DRY_RUN'')],
           PDict [(''price'', PStr ''20.00''), (''qty'', PStr ''0.002''),
                  (''status'', PStr ''DRY_RUN'')],
           PDict [(''price'', PStr ''30.00''), (''qty'', PStr ''0.002''),
                  (''status'', PStr ''DRY_RUN'')]], [])"
proof -
  have flag: "True \<or> (None :: client) = None"
    by simp
  note inst = dry_run_results [OF flag, where symbol = "''BTCUSDT''" and side = "''BUY''"
      and qty = "Finite (Dec False 2 (- 3))" and h = "[]" and os = patient_platform
      and total_qty = "Finite (Dec False 2 0)" and chunks = 3 and duration_s = 60
      and q = "Finite (Dec False 66666666 (- 8))" and r = "Finite (Dec False 2 (- 8))"
      and iv = "Float False 5629499534213120 (- 48)"
      and x = "\<lambda>i. [Finite (Dec False 66666666 (- 8)), Finite (Dec False 66666666 (- 8)),
                     Finite (Dec False 66666668 (- 8))] ! i"
      and low = "Finite (Dec False 10 0)" and high = "Finite (Dec False 30 0)" and steps = 2
      and step = "Finite (Dec False 10 0)"
      and p = "\<lambda>i. [Finite (Dec False 1000 (- 2)), Finite (Dec False 2000 (- 2)),
                     Finite (Dec False 3000 (- 2))] ! i"
      and price = "Finite (Dec False 65000 0)" and tif = "''GTC''" and n = 0
      and poll_interval = 2 and stop_price = "Finite (Dec False 64000 0)"
      and limit_price = "Finite (Dec False 63900 0)" and tp_price = "Finite (Dec False 65000 0)"
      and sl_price = "Finite (Dec False 64000 0)"]
  from inst have market:
    "place_market_order None ''BTCUSDT'' ''BUY'' (Finite (Dec False 2 (- 3))) True [] =
       (Inr (PDict [(''status'', PStr ''DRY_RUN''), (''symbol'', PStr ''BTCUSDT''),
                    (''side'', PStr ''BUY''), (''qty'', PStr ''0.002'')]), [])"
    by (simp add: str_examples)
  from inst have limit:
    "place_limit_order None ''BTCUSDT'' ''BUY'' (Finite (Dec False 2 (- 3)))
       (Finite (Dec False 65000 0)) ''GTC'' True [] =
     (Inr (PDict [(''status'', PStr ''DRY_RUN''), (''symbol'', PStr ''BTCUSDT''),
                  (''side'', PStr ''BUY''), (''qty'', PStr ''0.002''),
                  (''price'', PStr ''65000'')]), [])"
    by (simp add: str_examples)
  from inst have stop:
    "stop_limit_watch_and_place 0 patient_platform None ''BTCUSDT'' ''BUY''
       (Finite (Dec False 2 (- 3))) (Finite (Dec False 64000 0)) (Finite (Dec False 63900 0))
       True 2 [] =
     (Some (Inr (PDict [(''status'', PStr ''DRY_RUN''), (''symbol'', PStr ''BTCUSDT''),
                        (''side'', PStr ''BUY''), (''qty'', PStr ''0.002''),
                        (''stop'', PStr ''64000''), (''limit'', PStr ''63900'')])), [])"
    by (simp add: str_examples sleep_2)
  from inst slices_2_3 interval_60_3 execute_qty_2_3 have twap:
    "run_twap patient_platform None ''BTCUSDT'' ''BUY'' (Finite (Dec False 2 0)) 3 60 True [] =
       (Inr (map (\<lambda>i. PDict [(''chunk'', PInt (int i + 1)), (''status'', PStr ''DRY_RUN''),
                              (''qty'', PStr (decimal_str
                                 ([Finite (Dec False 66666666 (- 8)),
                                   Finite (Dec False 66666666 (- 8)),
                                   Finite (Dec False 66666668 (- 8))] ! i)))])
               [0..<nat 3]), [])"
    by blast
  from inst grid_10_30 grid_10_30_prices have grid:
    "create_grid None ''BTCUSDT'' (Finite (Dec False 10 0)) (Finite (Dec False 30 0)) 2
       (Finite (Dec False 2 (- 3))) True [] =
       (Inr (map (\<lambda>i. PDict [(''price'', PStr (decimal_str
                                 ([Finite (Dec False 1000 (- 2)), Finite (Dec False 2000 (- 2)),
                                   Finite (Dec False 3000 (- 2))] ! i))),
                              (''qty'', PStr (decimal_str (Finite (Dec False 2 (- 3))))),
                              (''status'', PStr ''DRY_RUN'')])
               [0..<nat (2 + 1)]), [])"
    by blast
  from market limit stop twap grid show ?thesis
    by (simp add: upt_rec str_examples)
qed

text \<open>
  Claim C8: when the API key or the API secret is absent there is no client, the operation
  does not fail, and every strategy falls back to the dry run and returns a \<^verbatim>\<open>DRY_RUN\<close>
  result with no call made. The fallback is there, but it does not keep the operation from
  failing: with no credentials \<^verbatim>\<open>run_twap\<close> of \<open>10000\<close> in one chunk, a quantity that
  \<^verbatim>\<open>validate_quantity\<close> accepts, ends with \<^verbatim>\<open>InvalidOperation\<close>, and the stop-limit watcher with
  a poll interval of \<open>-1\<close> ends with the \<^verbatim>\<open>ValueError\<close> of \<^verbatim>\<open>time.sleep\<close>.
\<close>

theorem missing_credentials_do_not_prevent_failure:
  "create_client unreachable_Client None (Some ''secret'') = None
   \<and> validate_quantity ''10000'' = Inr (Finite (Dec False 10000 0))
   \<and> run_twap patient_platform (create_client unreachable_Client None (Some ''secret''))
       ''BTCUSDT'' ''BUY'' (Finite (Dec False 10000 0)) 1 0 False []
       = (Inl InvalidOperation, [])
   \<and> stop_limit_watch_and_place 5 patient_platform
       (create_client unreachable_Client None (Some ''secret'')) ''BTCUSDT'' ''BUY''
       (Finite (Dec False 2 (- 3))) (Finite (Dec False 64000 0)) (Finite (Dec False 63900 0))
       False (- 1) []
       = (Some (Inl (ValueError ''sleep length must be non-negative'')), [])"
  by (simp add: create_client_def run_twap_def slices_10000_1 stop_limit_watch_and_place_def
      live_def time_sleep_int_def validate_quantity_def decimal_le_zero parse_eval)

text \<open>
  Claim C8 as amended: when the API key or the API secret is absent (or empty) there is no
  client, and with no client every strategy does, whatever the flag, what it does in a dry
  run: it makes no call, and what it returns or raises is what its dry run returns or
  raises. The market order, the limit order and \<^verbatim>\<open>place_oco\<close> return their \<^verbatim>\<open>DRY_RUN\<close> record.
  The stop-limit watcher returns its record when \<^verbatim>\<open>time.sleep\<close> takes the poll interval, and
  ends with the exception of \<^verbatim>\<open>time.sleep\<close> otherwise. \<^verbatim>\<open>run_twap\<close> and \<^verbatim>\<open>create_grid\<close> may end
  with an exception of their arithmetic, of the check \<open>low < high\<close> or of a sleep between
  chunks; when they return, they return one record of status \<^verbatim>\<open>DRY_RUN\<close> for each chunk or
  level.
\<close>

theorem missing_credentials_mean_dry_run:
  assumes "API_KEY = None \<or> API_KEY = Some [] \<or> API_SECRET = None \<or> API_SECRET = Some []"
    and "client = create_client Client API_KEY API_SECRET"
  shows
    "client = None
     \<and> place_market_order client symbol side qty dry_run h =
       (Inr (PDict [(''status'', PStr ''DRY_RUN''), (''symbol'', PStr symbol),
                    (''side'', PStr side), (''qty'', PStr (decimal_str qty))]), h)
     \<and> place_limit_order client symbol side qty price tif dry_run h =
       (Inr (PDict [(''status'', PStr ''DRY_RUN''), (''symbol'', PStr symbol),
                    (''side'', PStr side), (''qty'', PStr (decimal_str qty)),
                    (''price'', PStr (decimal_str price))]), h)
     \<and> place_oco client symbol side qty tp_price sl_price dry_run h =
       (Inr (PDict [(''status'', PStr ''DRY_RUN'')]), h)
     \<and> stop_limit_watch_and_place n os client symbol side qty stop_price limit_price dry_run
         poll_interval h =
       (case time_sleep_int os poll_interval of
          Some e \<Rightarrow> (Some (Inl e), h)
        | None \<Rightarrow>
            (Some (Inr (PDict [(''status'', PStr ''DRY_RUN''), (''symbol'', PStr symbol),
                               (''side'', PStr side), (''qty'', PStr (decimal_str qty)),
                               (''stop'', PStr (decimal_str stop_price)),
                               (''limit'', PStr (decimal_str limit_price))])), h))
     \<and> run_twap os client symbol side total_qty chunks duration_s dry_run h
         = run_twap os other symbol side total_qty chunks duration_s True h
     \<and> snd (run_twap os client symbol side total_qty chunks duration_s dry_run h) = h
     \<and> (\<forall>rs. fst (run_twap os client symbol side total_qty chunks duration_s dry_run h) = Inr rs
           \<longrightarrow> length rs = nat chunks \<and> list_all (has_status ''DRY_RUN'') rs)
     \<and> create_grid client symbol low high steps qty dry_run h
         = create_grid other symbol low high steps qty True h
     \<and> snd (create_grid client symbol low high steps qty dry_run h) = h
     \<and> (\<forall>rs. fst (create_grid client symbol low high steps qty dry_run h) = Inr rs
           \<longrightarrow> length rs = nat (steps + 1) \<and> list_all (has_status ''DRY_RUN'') rs)"
proof -
  have none: "client = None"
    using assms by (auto simp: create_client_def split: option.splits)
  then have dry: "live dry_run client = None"
    by (simp add: live_def)
  have same: "live dry_run client = live True other"
    by (simp add: dry, simp add: live_def)
  from dry_run_all [OF dry, where symbol = symbol and side = side and qty = qty and h = h
      and price = price and tif = tif and tp_price = tp_price and sl_price = sl_price and n = n
      and os = os and stop_price = stop_price and limit_price = limit_price
      and poll_interval = poll_interval and total_qty = total_qty and chunks = chunks
      and duration_s = duration_s and low = low and high = high and steps = steps]
    none
    run_twap_same [OF same, of os symbol side total_qty chunks duration_s h]
    create_grid_same [OF same, of symbol low high steps qty h]
  show ?thesis
    by blast
qed

theorem missing_credentials_mean_dry_run_witness:
  "create_client unreachable_Client None (Some ''secret'') = None
   \<and> place_market_order (create_client unreachable_Client None (Some ''secret'')) ''BTCUSDT''
       ''BUY'' (Finite (Dec False 2 (- 3))) False [] =
     (Inr (PDict [(''status'', PStr ''DRY_RUN''), (''symbol'', PStr ''BTCUSDT''),
                  (''side'', PStr ''BUY''), (''qty'', PStr ''0.002'')]), [])
   \<and> place_oco (create_client unreachable_Client None (Some ''secret'')) ''BTCUSDT'' ''BUY''
       (Finite (Dec False 2 (- 3))) (Finite (Dec False 65000 0)) (Finite (Dec False 64000 0))
       False [] =
     (Inr (PDict [(''status'', PStr ''DRY_RUN'')]), [])
   \<and> stop_limit_watch_and_place 5 patient_platform
       (create_client unreachable_Client None (Some ''secret'')) ''BTCUSDT'' ''BUY''
       (Finite (Dec False 2 (- 3))) (Finite (Dec False 64000 0)) (Finite (Dec False 63900 0))
       False 2 [] =
     (Some (Inr (PDict [(''status'', PStr ''DRY_RUN''), (''symbol'', PStr ''BTCUSDT''),
                        (''side'', PStr ''BUY''), (''qty'', PStr ''0.002''),
                        (''stop'', PStr ''64000''), (''limit'', PStr ''63900'')])), [])
   \<and> run_twap patient_platform (create_client unreachable_Client None (Some ''secret''))
       ''BTCUSDT'' ''BUY'' (Finite (Dec False 2 0)) 3 60 False [] =
     (Inr [PDict [(''chunk'', PInt 1), (''status'', PStr ''DRY_RUN''),
                  (''qty'', PStr ''0.66666666'')],
           PDict [(''chunk'', PInt 2), (''status'', PStr ''DRY_RUN''),
                  (''qty'', PStr ''0.66666666'')],
           PDict [(''chunk'', PInt 3), (''status'', PStr ''DRY_RUN''),
                  (''qty'', PStr ''0.66666668'')]], [])
   \<and> create_grid (create_client unreachable_Client None (Some ''secret'')) ''BTCUSDT''
       (Finite (Dec False 10 0)) (Finite (Dec False 30 0)) 2 (Finite (Dec False 2 (- 3)))
       False [] =
     (Inr [PDict [(''price'', PStr ''10.00''), (''qty'', PStr ''0.002''),
                  (''status'', PStr ''DRY_RUN'')],
           PDict [(''price'', PStr ''20.00''), (''qty'', PStr ''0.002''),
                  (''status'', PStr ''DRY_RUN'')],
           PDict [(''price'', PStr ''30.00''), (''qty'', PStr ''0.002''),
                  (''status'', PStr ''DRY_RUN'')]], [])"
proof -
  have k: "(None :: string option) = None \<or> (None :: string option) = Some []
      \<or> Some ''secret'' = None \<or> Some ''secret'' = Some []"
    by simp
  note inst = missing_credentials_mean_dry_run [OF k refl, where Client = unreachable_Client
      and dry_run = False and symbol = "''BTCUSDT''" and side = "''BUY''"
      and qty = "Finite (Dec False 2 (- 3))" and h = "[]" and os = patient_platform
      and total_qty = "Finite (Dec False 2 0)" and chunks = 3 and duration_s = 60
      and low = "Finite (Dec False 10 0)" and high = "Finite (Dec False 30 0)" and steps = 2
      and other = None and price = "Finite (Dec False 65000 0)" and tif = "''GTC''" and n = 5
      and poll_interval = 2 and stop_price = "Finite (Dec False 64000 0)"
      and limit_price = "Finite (Dec False 63900 0)" and tp_price = "Finite (Dec False 65000 0)"
      and sl_price = "Finite (Dec False 64000 0)"]
  from inst have c: "create_client unreachable_Client None (Some ''secret'') = None"
    by blast
  note at_none = inst [unfolded c]
  from at_none have market:
    "place_market_order None ''BTCUSDT'' ''BUY'' (Finite (Dec False 2 (- 3))) False [] =
     (Inr (PDict [(''status'', PStr ''DRY_RUN''), (''symbol'', PStr ''BTCUSDT''),
                  (''side'', PStr ''BUY''), (''qty'', PStr ''0.002'')]), [])"
    by (simp add: str_examples)
  from at_none have oco:
    "place_oco None ''BTCUSDT'' ''BUY'' (Finite (Dec False 2 (- 3)))
       (Finite (Dec False 65000 0)) (Finite (Dec False 64000 0)) False [] =
     (Inr (PDict [(''status'', PStr ''DRY_RUN'')]), [])"
    by blast
  from at_none have stop:
    "stop_limit_watch_and_place 5 patient_platform None ''BTCUSDT'' ''BUY''
       (Finite (Dec False 2 (- 3))) (Finite (Dec False 64000 0)) (Finite (Dec False 63900 0))
       False 2 [] =
     (Some (Inr (PDict [(''status'', PStr ''DRY_RUN''), (''symbol'', PStr ''BTCUSDT''),
                        (''side'', PStr ''BUY''), (''qty'', PStr ''0.002''),
                        (''stop'', PStr ''64000''), (''limit'', PStr ''63900'')])), [])"
    by (simp add: str_examples sleep_2)
  from at_none have twap:
    "run_twap patient_platform None ''BTCUSDT'' ''BUY'' (Finite (Dec False 2 0)) 3 60 False []
     = run_twap patient_platform None ''BTCUSDT'' ''BUY'' (Finite (Dec False 2 0)) 3 60 True []"
    by blast
  from at_none have grid:
    "create_grid None ''BTCUSDT'' (Finite (Dec False 10 0)) (Finite (Dec False 30 0)) 2
       (Finite (Dec False 2 (- 3))) False []
     = create_grid None ''BTCUSDT'' (Finite (Dec False 10 0)) (Finite (Dec False 30 0)) 2
         (Finite (Dec False 2 (- 3))) True []"
    by blast
  from market oco stop show ?thesis
    unfolding c twap grid run_twap_2_3 create_grid_10_30 by blast
qed

section \<open>Failures of single placements\<close>

lemma float_of_finite: "decimal_float (Finite d) = Inr (FloatOf (Finite d))"
  by (simp add: decimal_float_def)

text \<open>
  Claim C3: in \<^verbatim>\<open>run_twap\<close> and in \<^verbatim>\<open>create_grid\<close> a failed placement of one unit leaves an
  \<^verbatim>\<open>ERROR\<close> record for the unit, the other units are still tried, and the result has one
  entry for each unit, in order. \<^verbatim>\<open>create_grid\<close> does not do the first and the last: of three
  levels of which the second fails it returns two entries, and no \<^verbatim>\<open>ERROR\<close> record.
\<close>

theorem grid_drops_failed_level:
  "create_grid (Some flaky_gateway) ''BTCUSDT'' (Finite (Dec False 10 0))
     (Finite (Dec False 30 0)) 2 (Finite (Dec False 2 (- 3))) False []
     = (Inr [PDict [(''orderId'', PInt 0)], PDict [(''orderId'', PInt 2)]],
        [limit_call ''BTCUSDT'' ''BUY'' ''GTC'' (FloatOf (Finite (Dec False 2 (- 3))))
           (Finite (Dec False 1000 (- 2))),
         limit_call ''BTCUSDT'' ''BUY'' ''GTC'' (FloatOf (Finite (Dec False 2 (- 3))))
           (Finite (Dec False 2000 (- 2))),
         limit_call ''BTCUSDT'' ''BUY'' ''GTC'' (FloatOf (Finite (Dec False 2 (- 3))))
           (Finite (Dec False 3000 (- 2)))])"
  using create_grid_live [OF grid_10_30 float_of_finite grid_10_30_prices,
      of flaky_gateway "''BTCUSDT''" "Dec False 2 (- 3)" "[]"]
  by (simp add: flaky_gateway_def upt_rec)

text \<open>
  Claim C3 as amended: a failed placement of one unit is caught and the other units are
  still tried, in order, in both strategies, as long as nothing else raises. \<^verbatim>\<open>run_twap\<close>,
  when the slices, the interval and the quantity of every chunk are computed and (with more
  than one chunk) the sleep of the interval returns, places one order for each chunk and
  returns one entry for each chunk, in the order of the chunks: the response, or an \<^verbatim>\<open>ERROR\<close>
  record with the number of the chunk when the placement raised. \<^verbatim>\<open>create_grid\<close>, when
  \<open>low < high\<close> and the step size and the price of every level are computed, places one order
  for each level and only logs a failure: it returns the responses of the levels whose
  placement succeeded, in the order of the levels, and no \<^verbatim>\<open>ERROR\<close> record. An exception of
  the arithmetic or of a sleep is not caught: it ends the strategy.
\<close>

theorem single_failures_are_survived:
  "(twap_slices total_qty chunks = Inr (q, r) \<longrightarrow>
    twap_interval duration_s chunks = Inr iv \<longrightarrow>
    (chunks \<le> 1 \<or> time_sleep os iv = None) \<longrightarrow>
    (\<forall>i<nat chunks. execute_qty q r chunks i = Inr (x i)) \<longrightarrow>
    (\<forall>i<nat chunks. decimal_float (x i) = Inr (f i)) \<longrightarrow>
      run_twap os (Some gw) symbol side total_qty chunks duration_s False h =
        (Inr (map (\<lambda>i. case gw (h @ map (\<lambda>j. twap_call symbol side (f j)) [0..<i])
                               (twap_call symbol side (f i)) of
                         Return res \<Rightarrow> PDict res
                       | Raise e \<Rightarrow> PDict [(''chunk'', PInt (int i + 1)),
                                           (''status'', PStr ''ERROR'')])
                [0..<nat chunks]),
         h @ map (\<lambda>i. twap_call symbol side (f i)) [0..<nat chunks]))
   \<and> (decimal_ge low high = Inr False \<longrightarrow> grid_step_size low high steps = Inr step \<longrightarrow>
      decimal_float qty = Inr quantity \<longrightarrow>
      (\<forall>i<nat (steps + 1). grid_price low step i = Inr (p i)) \<longrightarrow>
      create_grid (Some gw) symbol low high steps qty False h =
        (Inr (concat (map (\<lambda>i. case gw (h @ map (\<lambda>j. limit_call symbol ''BUY'' ''GTC''
                                                        quantity (p j)) [0..<i])
                                       (limit_call symbol ''BUY'' ''GTC'' quantity (p i)) of
                               Return res \<Rightarrow> [PDict res]
                             | Raise e \<Rightarrow> []) [0..<nat (steps + 1)])),
         h @ map (\<lambda>i. limit_call symbol ''BUY'' ''GTC'' quantity (p i))
               [0..<nat (steps + 1)]))"
proof (intro conjI impI)
  assume "twap_slices total_qty chunks = Inr (q, r)" "twap_interval duration_s chunks = Inr iv"
    "chunks \<le> 1 \<or> time_sleep os iv = None"
    "\<forall>i<nat chunks. execute_qty q r chunks i = Inr (x i)"
    "\<forall>i<nat chunks. decimal_float (x i) = Inr (f i)"
  from run_twap_live [OF this, of gw symbol side h]
  show "run_twap os (Some gw) symbol side total_qty chunks duration_s False h =
        (Inr (map (\<lambda>i. case gw (h @ map (\<lambda>j. twap_call symbol side (f j)) [0..<i])
                               (twap_call symbol side (f i)) of
                         Return res \<Rightarrow> PDict res
                       | Raise e \<Rightarrow> PDict [(''chunk'', PInt (int i + 1)),
                                           (''status'', PStr ''ERROR'')])
                [0..<nat chunks]),
         h @ map (\<lambda>i. twap_call symbol side (f i)) [0..<nat chunks])"
    by (auto simp: twap_error_record_def split: reply.splits)
next
  assume "decimal_ge low high = Inr False" "grid_step_size low high steps = Inr step"
    "decimal_float qty = Inr quantity" "\<forall>i<nat (steps + 1). grid_price low step i = Inr (p i)"
  from create_grid_live [OF this]
  show "create_grid (Some gw) symbol low high steps qty False h =
        (Inr (concat (map (\<lambda>i. case gw (h @ map (\<lambda>j. limit_call symbol ''BUY'' ''GTC''
                                                        quantity (p j)) [0..<i])
                                       (limit_call symbol ''BUY'' ''GTC'' quantity (p i)) of
                               Return res \<Rightarrow> [PDict res]
                             | Raise e \<Rightarrow> []) [0..<nat (steps + 1)])),
         h @ map (\<lambda>i. limit_call symbol ''BUY'' ''GTC'' quantity (p i))
               [0..<nat (steps + 1)])"
    by simp
qed

theorem single_failures_are_survived_witness:
  "run_twap patient_platform (Some flaky_gateway) ''BTCUSDT'' ''BUY'' (Finite (Dec False 2 0))
     3 60 False [] =
     (Inr [PDict [(''orderId'', PInt 0)],
           PDict [(''chunk'', PInt 2), (''status'', PStr ''ERROR'')],
           PDict [(''orderId'', PInt 2)]],
      [twap_call ''BTCUSDT'' ''BUY'' (FloatOf (Finite (Dec False 66666666 (- 8)))),
       twap_call ''BTCUSDT'' ''BUY'' (FloatOf (Finite (Dec False 66666666 (- 8)))),
       twap_call ''BTCUSDT'' ''BUY'' (FloatOf (Finite (Dec False 66666668 (- 8))))])
   \<and> create_grid (Some flaky_gateway) ''BTCUSDT'' (Finite (Dec False 10 0))
       (Finite (Dec False 30 0)) 2 (Finite (Dec False 2 (- 3))) False [] =
     (Inr [PDict [(''orderId'', PInt 0)], PDict [(''orderId'', PInt 2)]],
      [limit_call ''BTCUSDT'' ''BUY'' ''GTC'' (FloatOf (Finite (Dec False 2 (- 3))))
         (Finite (Dec False 1000 (- 2))),
       limit_call ''BTCUSDT'' ''BUY'' ''GTC'' (FloatOf (Finite (Dec False 2 (- 3))))
         (Finite (Dec False 2000 (- 2))),
       limit_call ''BTCUSDT'' ''BUY'' ''GTC'' (FloatOf (Finite (Dec False 2 (- 3))))
         (Finite (Dec False 3000 (- 2)))])"
proof -
  note inst = single_failures_are_survived [where gw = flaky_gateway and symbol = "''BTCUSDT''"
      and side = "''BUY''" and total_qty = "Finite (Dec False 2 0)" and chunks = 3
      and duration_s = 60 and os = patient_platform and h = "[]"
      and q = "Finite (Dec False 66666666 (- 8))" and r = "Finite (Dec False 2 (- 8))"
      and iv = "Float False 5629499534213120 (- 48)"
      and x = "\<lambda>i. [Finite (Dec False 66666666 (- 8)), Finite (Dec False 66666666 (- 8)),
                     Finite (Dec False 66666668 (- 8))] ! i"
      and f = "\<lambda>i. [FloatOf (Finite (Dec False 66666666 (- 8))),
                     FloatOf (Finite (Dec False 66666666 (- 8))),
                     FloatOf (Finite (Dec False 66666668 (- 8)))] ! i"
      and low = "Finite (Dec False 10 0)" and high = "Finite (Dec False 30 0)" and steps = 2
      and step = "Finite (Dec False 10 0)" and qty = "Finite (Dec False 2 (- 3))"
      and quantity = "FloatOf (Finite (Dec False 2 (- 3)))"
      and p = "\<lambda>i. [Finite (Dec False 1000 (- 2)), Finite (Dec False 2000 (- 2)),
                     Finite (Dec False 3000 (- 2))] ! i"]
  from inst slices_2_3 interval_60_3 execute_qty_2_3 float_2_3 have twap:
    "run_twap patient_platform (Some flaky_gateway) ''BTCUSDT'' ''BUY'' (Finite (Dec False 2 0))
       3 60 False [] =
     (Inr (map (\<lambda>i. case flaky_gateway
                          ([] @ map (\<lambda>j. twap_call ''BTCUSDT'' ''BUY''
                              ([FloatOf (Finite (Dec False 66666666 (- 8))),
                                FloatOf (Finite (Dec False 66666666 (- 8))),
                                FloatOf (Finite (Dec False 66666668 (- 8)))] ! j)) [0..<i])
                          (twap_call ''BTCUSDT'' ''BUY''
                             ([FloatOf (Finite (Dec False 66666666 (- 8))),
                               FloatOf (Finite (Dec False 66666666 (- 8))),
                               FloatOf (Finite (Dec False 66666668 (- 8)))] ! i)) of
                      Return res \<Rightarrow> PDict res
                    | Raise e \<Rightarrow> PDict [(''chunk'', PInt (int i + 1)),
                                        (''status'', PStr ''ERROR'')])
             [0..<nat 3]),
      [] @ map (\<lambda>i. twap_call ''BTCUSDT'' ''BUY''
                  ([FloatOf (Finite (Dec False 66666666 (- 8))),
                    FloatOf (Finite (Dec False 66666666 (- 8))),
                    FloatOf (Finite (Dec False 66666668 (- 8)))] ! i)) [0..<nat 3])"
    by blast
  from inst grid_10_30 grid_10_30_prices float_of_finite [of "Dec False 2 (- 3)"] have grid:
    "create_grid (Some flaky_gateway) ''BTCUSDT'' (Finite (Dec False 10 0))
       (Finite (Dec False 30 0)) 2 (Finite (Dec False 2 (- 3))) False [] =
     (Inr (concat (map (\<lambda>i. case flaky_gateway
                                  ([] @ map (\<lambda>j. limit_call ''BTCUSDT'' ''BUY'' ''GTC''
                                      (FloatOf (Finite (Dec False 2 (- 3))))
                                      ([Finite (Dec False 1000 (- 2)),
                                        Finite (Dec False 2000 (- 2)),
                                        Finite (Dec False 3000 (- 2))] ! j)) [0..<i])
                                  (limit_call ''BTCUSDT'' ''BUY'' ''GTC''
                                     (FloatOf (Finite (Dec False 2 (- 3))))
                                     ([Finite (Dec False 1000 (- 2)),
                                       Finite (Dec False 2000 (- 2)),
                                       Finite (Dec False 3000 (- 2))] ! i)) of
                             Return res \<Rightarrow> [PDict res]
                           | Raise e \<Rightarrow> []) [0..<nat (2 + 1)])),
      [] @ map (\<lambda>i. limit_call ''BTCUSDT'' ''BUY'' ''GTC''
                  (FloatOf (Finite (Dec False 2 (- 3))))
                  ([Finite (Dec False 1000 (- 2)), Finite (Dec False 2000 (- 2)),
                    Finite (Dec False 3000 (- 2))] ! i)) [0..<nat (2 + 1)])"
    by blast
  show ?thesis
    unfolding twap grid by (simp add: flaky_gateway_def upt_rec)
qed

text \<open>
  Outside the theorem: a sleep that raises. Two chunks over \<open>2 * 10 ^ 10\<close> seconds: the
  first order is placed, \<^verbatim>\<open>time.sleep\<close> refuses the \<open>10 ^ 10\<close> seconds with \<^verbatim>\<open>OverflowError\<close>, and
  the second chunk is never tried.
\<close>

lemma twap_sleep_ends_run:
  "run_twap os (Some flaky_gateway) ''BTCUSDT'' ''BUY'' (Finite (Dec False 2 0)) 2
     20000000000 False []
     = (Inl OverflowError,
        [twap_call ''BTCUSDT'' ''BUY'' (FloatOf (Finite (Dec False 100000000 (- 8))))])"
proof -
  have "twap_slices (Finite (Dec False 2 0)) 2
      = Inr (Finite (Dec False 100000000 (- 8)), Finite (Dec False 0 (- 8)))"
    by (simp add: twap_slices_def twap_prec_def decimal_eval dec_eval)
  moreover have "twap_interval 20000000000 2 = Inr (Float False 5242880000000000 (- 19))"
    by (simp add: float_eval)
  moreover have "time_sleep os (Float False 5242880000000000 (- 19)) = Some OverflowError"
    by (simp add: float_eval)
  moreover have "execute_qty (Finite (Dec False 100000000 (- 8))) (Finite (Dec False 0 (- 8)))
      2 0 = Inr (Finite (Dec False 100000000 (- 8)))"
    by (simp add: execute_qty_def twap_prec_def decimal_eval dec_eval)
  ultimately show ?thesis
    by (simp add: run_twap_def upt_rec twap_chunk_def twap_place_def live_def decimal_float_def
        flaky_gateway_def)
qed

end
